theory Spec2Isabelle
  imports Main "HOL-Library.Word" "HOL-Library.Multiset"
begin

section \<open>Fixed-size memory pool (util/memory_pool.h)\<close>

text \<open>
  A pointer is a machine word; \<open>nullptr\<close> is the word 0. The pool writes the link of its
  intrusive free list into the first word of a recycled block, so the part of memory the
  pool touches is a store from block addresses to the pointer kept in the block's first word.
  The general allocator (\<open>malloc\<close> of util/memory.h) is outside the pool: it is a parameter
  acting on an allocator state of its own.
\<close>

type_synonym ptr = "64 word"

definition nullptr :: ptr where
  "nullptr = 0"

record 'a memory_pool =
  m_size :: "32 word"
  m_free_list :: ptr
  first_word :: "ptr \<Rightarrow> ptr"
  allocator :: 'a

definition mk_memory_pool :: "32 word \<Rightarrow> (ptr \<Rightarrow> ptr) \<Rightarrow> 'a \<Rightarrow> 'a memory_pool" where
  "mk_memory_pool sz mem al =
     \<lparr>m_size = sz, m_free_list = nullptr, first_word = mem, allocator = al\<rparr>"

definition allocate :: "(32 word \<Rightarrow> 'a \<Rightarrow> ptr \<times> 'a) \<Rightarrow> 'a memory_pool \<Rightarrow> ptr \<times> 'a memory_pool" where
  "allocate malloc p =
     (if m_free_list p \<noteq> nullptr then
        (let r = m_free_list p
         in (r, p\<lparr>m_free_list := first_word p r\<rparr>))
      else
        (let (r, al) = malloc (m_size p) (allocator p)
         in (r, p\<lparr>allocator := al\<rparr>)))"

definition recycle :: "ptr \<Rightarrow> 'a memory_pool \<Rightarrow> 'a memory_pool" where
  "recycle b p = p\<lparr>first_word := (first_word p)(b := m_free_list p), m_free_list := b\<rparr>"

section \<open>Names, universe levels, locations and terms\<close>

text \<open>
  A hierarchical name is the list of its components, outermost first:
  \<open>name{"rewriter", "max_iter"}\<close> is \<open>[''rewriter'', ''max_iter'']\<close>.
\<close>

type_synonym name = "string list"

text \<open>
  Modelled from the spec: kernel/level.h is not part of the material. A universe level is
  zero, a named parameter, a metavariable or the maximum of two levels; level one
  (\<open>mk_level_one\<close>) is the successor of zero.
\<close>

datatype level =
    LZero
  | LSucc level
  | LMax level level
  | LParam name
  | LMeta name

definition mk_level_zero :: level where
  "mk_level_zero = LZero"

definition mk_level_one :: level where
  "mk_level_one = LSucc LZero"

definition mk_max :: "level \<Rightarrow> level \<Rightarrow> level" where
  "mk_max l1 l2 = LMax l1 l2"

text \<open>
  Modelled from the spec: library/tactic/location.h is not part of the material. A location
  is "goal only", or a set of named hypotheses, each with its occurrence selector,
  optionally together with the goal and its selector. An occurrence selector is "all
  occurrences" or an explicit set of 1-based indices.
\<close>

datatype occurrence = OccAll | OccPos "nat list"

datatype location =
    GoalOnly occurrence
  | Hypotheses "(name \<times> occurrence) list" "occurrence option"

fun is_goal_only :: "location \<Rightarrow> bool" where
  "is_goal_only (GoalOnly occ) = True"
| "is_goal_only (Hypotheses hs g) = False"

fun includes_goal :: "location \<Rightarrow> occurrence option" where
  "includes_goal (GoalOnly occ) = Some occ"
| "includes_goal (Hypotheses hs g) = g"

fun includes_hypothesis :: "location \<Rightarrow> name \<Rightarrow> occurrence option" where
  "includes_hypothesis (GoalOnly occ) h = None"
| "includes_hypothesis (Hypotheses hs g) h = map_of hs h"

subsection \<open>Payloads of the rewrite-family steps (rewrite_tactic.cpp)\<close>

record unfold_info =
  m_names :: "name list"
  m_location_unfold :: location

record reduce_info =
  m_location_reduce :: location

type_synonym fold_info = reduce_info

datatype multiplicity = Once | AtMostN | ExactlyN | ZeroOrMore | OneOrMore

record rewrite_info =
  m_symm :: bool
  m_multiplicity :: multiplicity
  m_num :: "32 word option"
  m_location :: location

definition mk_once :: "bool \<Rightarrow> location \<Rightarrow> rewrite_info" where
  "mk_once symm loc =
     \<lparr>m_symm = symm, m_multiplicity = Once, m_num = None, m_location = loc\<rparr>"

definition mk_at_most_n :: "32 word \<Rightarrow> bool \<Rightarrow> location \<Rightarrow> rewrite_info" where
  "mk_at_most_n n symm loc =
     \<lparr>m_symm = symm, m_multiplicity = AtMostN, m_num = Some n, m_location = loc\<rparr>"

definition mk_exactly_n :: "32 word \<Rightarrow> bool \<Rightarrow> location \<Rightarrow> rewrite_info" where
  "mk_exactly_n n symm loc =
     \<lparr>m_symm = symm, m_multiplicity = ExactlyN, m_num = Some n, m_location = loc\<rparr>"

definition mk_zero_or_more :: "bool \<Rightarrow> location \<Rightarrow> rewrite_info" where
  "mk_zero_or_more symm loc =
     \<lparr>m_symm = symm, m_multiplicity = ZeroOrMore, m_num = None, m_location = loc\<rparr>"

definition mk_one_or_more :: "bool \<Rightarrow> location \<Rightarrow> rewrite_info" where
  "mk_one_or_more symm loc =
     \<lparr>m_symm = symm, m_multiplicity = OneOrMore, m_num = None, m_location = loc\<rparr>"

definition has_num :: "rewrite_info \<Rightarrow> bool" where
  "has_num info = (m_multiplicity info = AtMostN \<or> m_multiplicity info = ExactlyN)"

subsection \<open>Macro definitions and terms\<close>

text \<open>
  The macro kinds of the material as one tagged variant. A let-value cell carries the
  instance id it minted (\<open>m_id\<close>, an \<open>unsigned\<close>), a let cell its variable name, a
  rewrite-family cell its payload.

  Modelled from the spec: library/explicit.cpp and the "as atomic" marker are not part of
  the material (only explicit.h is); each is a one-argument macro wrapper whose cell
  carries no payload.
\<close>

datatype macro_def =
    LetValueDef "32 word"
  | LetDef name
  | ExplicitDef
  | AsAtomicDef
  | RewriteElementDef rewrite_info
  | RewriteUnfoldDef unfold_info
  | RewriteFoldDef fold_info
  | RewriteReduceDef reduce_info

datatype binder_info = BinderDefault | BinderImplicit | BinderStrictImplicit | BinderInstImplicit

text \<open>
  Modelled from the spec: kernel/expr.h is not part of the material. A term is a bound
  variable, a sort, a global constant with its universe levels, a metavariable (identity,
  type), a local constant (identity, display name, type, binder annotation), an
  application, a lambda or Pi binder, or a macro node with its argument list.
\<close>

datatype expr =
    Var nat
  | Sort level
  | Constant name "level list"
  | Meta name expr
  | Local name name expr binder_info
  | App expr expr
  | Lambda name expr expr binder_info
  | Pi name expr expr binder_info
  | Macro macro_def "expr list"

fun is_constant :: "expr \<Rightarrow> bool" where
  "is_constant (Constant n ls) = True"
| "is_constant e = False"

fun is_local :: "expr \<Rightarrow> bool" where
  "is_local (Local n pp t bi) = True"
| "is_local e = False"

fun is_app :: "expr \<Rightarrow> bool" where
  "is_app (App f a) = True"
| "is_app e = False"

definition mk_constant :: "name \<Rightarrow> level list \<Rightarrow> expr" where
  "mk_constant n ls = Constant n ls"

text \<open>\<open>mk_app(f, args)\<close> applies \<open>f\<close> to the arguments from left to right.\<close>

definition mk_app :: "expr \<Rightarrow> expr list \<Rightarrow> expr" where
  "mk_app f args = foldl App f args"

text \<open>
  \<open>get_app_args(e, args)\<close> returns the head of the application spine of \<open>e\<close> and
  stores the arguments in \<open>args\<close>, first argument first.
\<close>

fun get_app_args :: "expr \<Rightarrow> expr \<times> expr list" where
  "get_app_args (App f a) = (case get_app_args f of (h, args) \<Rightarrow> (h, args @ [a]))"
| "get_app_args e = (e, [])"

subsection \<open>The explicit and as-atomic markers (library/explicit.h)\<close>

definition mk_explicit :: "expr \<Rightarrow> expr" where
  "mk_explicit e = Macro ExplicitDef [e]"

fun is_explicit :: "expr \<Rightarrow> bool" where
  "is_explicit (Macro ExplicitDef [e]) = True"
| "is_explicit e = False"

text \<open>
  \<open>get_explicit_arg\<close> has the precondition \<open>is_explicit\<close>; a call outside it is an
  assertion violation, which the result \<open>None\<close> stands for.
\<close>

fun get_explicit_arg :: "expr \<Rightarrow> expr option" where
  "get_explicit_arg (Macro ExplicitDef [e]) = Some e"
| "get_explicit_arg e = None"

definition mk_as_atomic :: "expr \<Rightarrow> expr" where
  "mk_as_atomic e = Macro AsAtomicDef [e]"

fun is_as_atomic :: "expr \<Rightarrow> bool" where
  "is_as_atomic (Macro AsAtomicDef [e]) = True"
| "is_as_atomic e = False"

fun get_as_atomic_arg :: "expr \<Rightarrow> expr option" where
  "get_as_atomic_arg (Macro AsAtomicDef [e]) = Some e"
| "get_as_atomic_arg e = None"

section \<open>Parser support utilities: references to local declarations\<close>

definition mk_local_ref :: "name \<Rightarrow> level list \<Rightarrow> expr list \<Rightarrow> expr" where
  "mk_local_ref n ctx_ls ctx_params =
     (let params = map mk_explicit ctx_params
      in mk_as_atomic (mk_app (mk_explicit (mk_constant n ctx_ls)) params))"

text \<open>
  The conjunction of the source short-circuits, so \<open>get_explicit_arg\<close> is only reached on
  an explicit term; the lambda of \<open>std::all_of\<close> is \<open>is_explicit_local\<close>.
\<close>

definition is_explicit_local :: "expr \<Rightarrow> bool" where
  "is_explicit_local l =
     (is_explicit l \<and> (case get_explicit_arg l of Some a \<Rightarrow> is_local a | None \<Rightarrow> False))"

definition is_local_ref :: "expr \<Rightarrow> bool" where
  "is_local_ref e =
     (if \<not> is_as_atomic e then False
      else case get_as_atomic_arg e of
        None \<Rightarrow> False
      | Some imp_arg \<Rightarrow>
          if \<not> is_app imp_arg then False
          else case get_app_args imp_arg of
            (f, locals) \<Rightarrow>
              is_explicit f \<and>
              (case get_explicit_arg f of Some c \<Rightarrow> is_constant c | None \<Rightarrow> False) \<and>
              list_all is_explicit_local locals)"

section \<open>Let-value macro (library/let.cpp)\<close>

text \<open>
  \<open>g_next_let_value_id\<close> is an \<open>atomic<unsigned>\<close>: the state of the generator is a
  32-bit word, \<open>atomic_fetch_add_explicit\<close> returns the old value and stores the old value
  plus one, wrapping around at \<open>2 ^ 32\<close>.
\<close>

definition next_let_value_id :: "32 word \<Rightarrow> 32 word \<times> 32 word" where
  "next_let_value_id g = (g, g + 1)"

text \<open>
  \<open>mk_let_value\<close> builds a new cell, whose constructor mints the id, and wraps the one
  argument in a macro node of that cell.
\<close>

definition mk_let_value :: "expr \<Rightarrow> 32 word \<Rightarrow> expr \<times> 32 word" where
  "mk_let_value e g =
     (case next_let_value_id g of (i, g') \<Rightarrow> (Macro (LetValueDef i) [e], g'))"

text \<open>\<open>operator==\<close> of a let-value cell with id \<open>i\<close> against any other cell.\<close>

fun let_value_eq :: "32 word \<Rightarrow> macro_def \<Rightarrow> bool" where
  "let_value_eq i (LetValueDef j) = (i = j)"
| "let_value_eq i other = False"

fun is_let_value :: "expr \<Rightarrow> bool" where
  "is_let_value (Macro (LetValueDef i) args) = True"
| "is_let_value e = False"

text \<open>
  Modelled from the spec: the kernel's equality of terms is not part of the material. Two
  macro nodes are equal when their definitions are equal under \<open>operator==\<close> of the first
  node's cell and their argument lists are equal under the kernel's equality, which is the
  parameter \<open>args_eq\<close>.
\<close>

fun let_value_node_eq :: "(expr list \<Rightarrow> expr list \<Rightarrow> bool) \<Rightarrow> expr \<Rightarrow> expr \<Rightarrow> bool" where
  "let_value_node_eq args_eq (Macro (LetValueDef i) as) (Macro d bs) =
     (let_value_eq i d \<and> args_eq as bs)"
| "let_value_node_eq args_eq a b = False"

text \<open>A run of \<open>mk_let_value\<close> calls, one per term of the list, threading the generator.\<close>

fun mk_let_values :: "expr list \<Rightarrow> 32 word \<Rightarrow> expr list \<times> 32 word" where
  "mk_let_values [] g = ([], g)"
| "mk_let_values (e # es) g =
     (case mk_let_value e g of (v, g') \<Rightarrow>
        (case mk_let_values es g' of (vs, g'') \<Rightarrow> (v # vs, g'')))"

section \<open>Parser support utilities: universe arithmetic\<close>

text \<open>Of the environment, only the flag \<open>impredicative\<close> is consulted.\<close>

record environment =
  impredicative :: bool

text \<open>
  \<open>normalize\<close> and \<open>is_not_zero\<close> on levels belong to the kernel (kernel/level.cpp, not
  part of the material) and are parameters here.
\<close>

definition mk_result_level ::
  "(level \<Rightarrow> level) \<Rightarrow> (level \<Rightarrow> bool) \<Rightarrow> environment \<Rightarrow> level list \<Rightarrow> level" where
  "mk_result_level normalize_level is_not_zero env r_lvls =
     (let imp = impredicative env
      in case r_lvls of
           [] \<Rightarrow> (if imp then mk_level_one else mk_level_zero)
         | l0 # rest \<Rightarrow>
             (let r = foldl mk_max l0 rest;
                  r = normalize_level r
              in if is_not_zero r then normalize_level r
                 else if imp then normalize_level (mk_max r mk_level_one)
                 else normalize_level r))"

text \<open>
  A small stand-in for the kernel's functions, used to instantiate the parameters at a
  concrete input: it reduces \<open>max 0 1\<close> to one and leaves every other level as it is,
  and it counts a successor level as not zero.
\<close>

fun normalize_max_zero_one :: "level \<Rightarrow> level" where
  "normalize_max_zero_one (LMax LZero (LSucc LZero)) = LSucc LZero"
| "normalize_max_zero_one l = l"

fun is_succ_level :: "level \<Rightarrow> bool" where
  "is_succ_level (LSucc l) = True"
| "is_succ_level l = False"

section \<open>Parser support utilities: sorting locals\<close>

text \<open>
  Of the parser (frontends/lean/parser.h, not part of the material) \<open>sort_locals\<close> uses
  three queries on a local constant: whether it is declared in the parser's local table,
  whether it is a section or context variable, and its declaration index.
\<close>

record parser =
  is_local_decl :: "expr \<Rightarrow> bool"
  is_local_variable :: "expr \<Rightarrow> bool"
  get_local_index :: "expr \<Rightarrow> 32 word"

text \<open>
  \<open>std::sort\<close> with a comparator leaves a permutation of the range in which no element is
  less than an element before it; the order of equivalent elements is not fixed. The model
  is insertion sort, one algorithm that meets this contract.
\<close>

fun insert_by :: "('a \<Rightarrow> 'a \<Rightarrow> bool) \<Rightarrow> 'a \<Rightarrow> 'a list \<Rightarrow> 'a list" where
  "insert_by lt x [] = [x]"
| "insert_by lt x (y # ys) = (if lt x y then x # y # ys else y # insert_by lt x ys)"

definition std_sort :: "('a \<Rightarrow> 'a \<Rightarrow> bool) \<Rightarrow> 'a list \<Rightarrow> 'a list" where
  "std_sort lt xs = foldr (insert_by lt) xs []"

text \<open>The comparator of \<open>sort_locals\<close>, the lambda passed to \<open>std::sort\<close>.\<close>

definition sort_locals_lt :: "parser \<Rightarrow> expr \<Rightarrow> expr \<Rightarrow> bool" where
  "sort_locals_lt p p1 p2 =
     (let is_var1 = is_local_variable p p1;
          is_var2 = is_local_variable p p2
      in if \<not> is_var1 \<and> is_var2 then True
         else if is_var1 \<and> \<not> is_var2 then False
         else get_local_index p p1 < get_local_index p p2)"

text \<open>
  \<open>sort_locals(locals, p, ps)\<close>: the set \<open>locals\<close> is given as the list of its elements in
  the order of iteration, whatever it is; \<open>ps\<close> is the buffer the result is written to, as
  the caller passes it. The declared locals are appended to the buffer and the whole
  buffer is sorted.
\<close>

definition sort_locals :: "expr list \<Rightarrow> parser \<Rightarrow> expr list \<Rightarrow> expr list" where
  "sort_locals locals p ps =
     std_sort (sort_locals_lt p) (ps @ filter (is_local_decl p) locals)"

text \<open>
  The order that \<open>sort_locals\<close> establishes between an earlier and a later entry: a
  variable is followed by variables only, and within the variables, and within the other
  locals, the declaration index does not decrease.
\<close>

definition sort_locals_before :: "parser \<Rightarrow> expr \<Rightarrow> expr \<Rightarrow> bool" where
  "sort_locals_before p a b =
     ((is_local_variable p a \<longrightarrow> is_local_variable p b) \<and>
      (is_local_variable p a = is_local_variable p b \<longrightarrow>
         get_local_index p a \<le> get_local_index p b))"

section \<open>Rewrite tactic engine (library/tactic/rewrite_tactic.cpp)\<close>

subsection \<open>Options and the iteration ceiling\<close>

definition g_rewriter_max_iterations :: name where
  "g_rewriter_max_iterations = [''rewriter'', ''max_iter'']"

definition g_rewriter_syntactic :: name where
  "g_rewriter_syntactic = [''rewriter'', ''syntactic'']"

definition g_rewriter_trace :: name where
  "g_rewriter_trace = [''rewriter'', ''trace'']"

definition LEAN_DEFAULT_REWRITER_MAX_ITERATIONS :: "32 word" where
  "LEAN_DEFAULT_REWRITER_MAX_ITERATIONS = 200"

definition LEAN_DEFAULT_REWRITER_SYNTACTIC :: bool where
  "LEAN_DEFAULT_REWRITER_SYNTACTIC = False"

definition LEAN_DEFAULT_REWRITER_TRACE :: bool where
  "LEAN_DEFAULT_REWRITER_TRACE = True"

text \<open>
  Modelled from the spec: the option store (util/sexpr/options.h) is not part of the
  material. Options map a name to an unsigned or boolean value; a lookup of an unset option
  yields the default passed to it. A name is printed with dots between its components.
\<close>

datatype option_value = UnsignedValue "32 word" | BoolValue bool

type_synonym options = "name \<Rightarrow> option_value option"

definition get_unsigned :: "options \<Rightarrow> name \<Rightarrow> 32 word \<Rightarrow> 32 word" where
  "get_unsigned opts n d = (case opts n of Some (UnsignedValue v) \<Rightarrow> v | _ \<Rightarrow> d)"

definition get_bool :: "options \<Rightarrow> name \<Rightarrow> bool \<Rightarrow> bool" where
  "get_bool opts n d = (case opts n of Some (BoolValue v) \<Rightarrow> v | _ \<Rightarrow> d)"

fun name_to_string :: "name \<Rightarrow> string" where
  "name_to_string [] = []"
| "name_to_string [c] = c"
| "name_to_string (c # cs) = c @ ''.'' @ name_to_string cs"

definition get_rewriter_max_iterations :: "options \<Rightarrow> 32 word" where
  "get_rewriter_max_iterations opts =
     get_unsigned opts g_rewriter_max_iterations LEAN_DEFAULT_REWRITER_MAX_ITERATIONS"

definition get_rewriter_syntactic :: "options \<Rightarrow> bool" where
  "get_rewriter_syntactic opts =
     get_bool opts g_rewriter_syntactic LEAN_DEFAULT_REWRITER_SYNTACTIC"

definition get_rewriter_trace :: "options \<Rightarrow> bool" where
  "get_rewriter_trace opts = get_bool opts g_rewriter_trace LEAN_DEFAULT_REWRITER_TRACE"

text \<open>
  The options that \<open>initialize_rewrite_tactic\<close> registers: name, default and description.
\<close>

definition registered_options :: "(name \<times> option_value \<times> string) list" where
  "registered_options =
     [(g_rewriter_max_iterations, UnsignedValue LEAN_DEFAULT_REWRITER_MAX_ITERATIONS,
         ''(rewriter tactic) maximum number of iterations''),
      (g_rewriter_syntactic, BoolValue LEAN_DEFAULT_REWRITER_SYNTACTIC,
         ''(rewriter tactic) if true tactic will not unfold any constant when performing pattern matching''),
      (g_rewriter_trace, BoolValue LEAN_DEFAULT_REWRITER_TRACE,
         ''(rewriter tactic) if true tactic will generate a trace for rewrite step failures'')]"

text \<open>An \<open>unsigned\<close> written to a string stream: its decimal digits.\<close>

definition digit_char :: "nat \<Rightarrow> char" where
  "digit_char d = ''0123456789'' ! d"

fun show_nat :: "nat \<Rightarrow> string" where
  "show_nat n =
     (if n < 10 then [digit_char n]
      else show_nat (n div 10) @ [digit_char (n mod 10)])"

declare show_nat.simps [simp del]

text \<open>The message that \<open>throw_max_iter_exceeded\<close> builds from \<open>m_max_iter\<close>.\<close>

definition max_iter_exceeded_message :: "32 word \<Rightarrow> string" where
  "max_iter_exceeded_message max_iter =
     ''rewrite tactic failed, maximum number of iterations exceeded '' @
     ''(current threshold: '' @ show_nat (unat max_iter) @
     '', increase the threshold by setting option 'rewrite.max_iter')''"

text \<open>Whether a string occurs in another one as a contiguous piece.\<close>

fun is_prefix_of :: "string \<Rightarrow> string \<Rightarrow> bool" where
  "is_prefix_of [] ys = True"
| "is_prefix_of (x # xs) [] = False"
| "is_prefix_of (x # xs) (y # ys) = (x = y \<and> is_prefix_of xs ys)"

fun occurs_in :: "string \<Rightarrow> string \<Rightarrow> bool" where
  "occurs_in xs [] = is_prefix_of xs []"
| "occurs_in xs (y # ys) = (is_prefix_of xs (y # ys) \<or> occurs_in xs ys)"

subsection \<open>Goals, proof states and exceptions\<close>

text \<open>
  Modelled from the spec: library/tactic/goal.h and proof_state.h are not part of the
  material. A goal is the pair of a metavariable application and its target type. A proof
  state is the list of goals, the substitution and the name generator, with the flag that
  says whether failures are reported by exceptions. Substitutions and name generators are
  kept abstract (type variables \<open>'sb\<close> and \<open>'ng\<close>).
\<close>

record goal =
  get_meta :: expr
  get_type :: expr

record ('sb, 'ng) proof_state =
  get_goals :: "goal list"
  get_subst :: 'sb
  get_ngen :: 'ng
  report_failure :: bool

text \<open>\<open>proof_state(ps, gs, s, ngen)\<close>: the state \<open>ps\<close> with new goals, substitution, generator.\<close>

definition mk_proof_state ::
  "('sb, 'ng) proof_state \<Rightarrow> goal list \<Rightarrow> 'sb \<Rightarrow> 'ng \<Rightarrow> ('sb, 'ng) proof_state" where
  "mk_proof_state ps gs s ngen = ps\<lparr>get_goals := gs, get_subst := s, get_ngen := ngen\<rparr>"

datatype failure_kind = Unification | Exception | HasMetavars

record failure =
  m_elab_lemma :: expr
  m_subterm :: expr
  m_kind :: failure_kind

record target_trace =
  m_is_hypothesis :: bool
  m_target :: expr
  m_failures :: "failure list"
  m_matched :: "expr option"

record trace =
  m_lemma :: expr
  m_pattern :: expr
  m_targets :: "target_trace list"

text \<open>
  What the engine can raise. A generic exception carries its message and the term used
  for error localisation; a tactic exception carries its message, the offending step, the
  proof state and the saved trace that its formatter prints (\<open>None\<close> for the fixed text
  "invalid 'rewrite' tactic, rewrite step failed"). \<open>NoGoal\<close> is the exception of
  \<open>throw_no_goal_if_enabled\<close>; \<open>KernelException\<close> stands for whatever the kernel, the
  elaborator or the unifier raise; \<open>AssertionViolation\<close> for a violated \<open>lean_assert\<close>.
\<close>

datatype ('sb, 'ng) exn =
    GenericException string expr
  | TacticException string "expr option" "('sb, 'ng) proof_state" "trace option"
  | NoGoal "('sb, 'ng) proof_state"
  | KernelException string
  | AssertionViolation

text \<open>
  Modelled from the spec: \<open>throw_no_goal_if_enabled\<close> (library/tactic) is not part of the
  material. It raises the no-goal error when failure reporting is enabled for the proof
  state, and returns otherwise.
\<close>

definition throw_no_goal_if_enabled :: "('sb, 'ng) proof_state \<Rightarrow> ('sb, 'ng) exn + unit" where
  "throw_no_goal_if_enabled s = (if report_failure s then Inl (NoGoal s) else Inr ())"

subsection \<open>The members of \<open>rewrite_fn\<close>\<close>

text \<open>
  The members that no step assigns are kept apart from the working members: \<open>m_ps\<close>,
  \<open>m_max_iter\<close> and \<open>m_use_trace\<close> are set by the constructor, and \<open>m_expr_loc\<close> is set by
  \<open>operator()\<close> around each step. The working members are the name generator, the current
  goal (\<open>m_ctx\<close> is its local context, recomputed by \<open>update_goal\<close>), the substitution and
  the trace; \<open>m_tc\<close> stands for the three type checkers, the match plugin and the matcher
  buffers \<open>m_lsubst\<close> and \<open>m_esubst\<close>, whose state is the kernel's own (type variable
  \<open>'tc\<close>). The environment, the io state and the elaborator live in the kernel interface
  below.
\<close>

record ('sb, 'ng) rewrite_fn_env =
  m_ps :: "('sb, 'ng) proof_state"
  m_expr_loc :: expr
  m_use_trace :: bool
  m_max_iter :: "32 word"

record ('sb, 'ng, 'tc) rewrite_fn =
  m_ngen :: 'ng
  m_tc :: 'tc
  m_g :: goal
  m_subst :: 'sb
  m_trace_initialized :: bool
  m_trace :: trace

text \<open>
  Modelled from the spec: kernel/constraint.h is not part of the material. A deferred
  unification constraint relates two terms; the engine only tests whether any was raised.
\<close>

type_synonym constraint = "expr \<times> expr"

text \<open>
  The kernel interface: what the engine calls outside the material (name generator,
  normaliser, goal and substitution operations, elaborator, the interrupt check
  \<open>check_system\<close>), and the members of \<open>rewrite_fn\<close> that consist of matcher, unifier
  and type checker calls throughout (\<open>get_pattern\<close>, \<open>process_rewrite_goal\<close>,
  \<open>process_rewrite_hypothesis\<close>, \<open>process_fold_step\<close>, \<open>process_reduce_to_step\<close>,
  \<open>check_trivial_goal\<close>), which the repetition and dispatch logic uses as state
  transformers that return a success flag or raise. \<open>normalize_tc\<close>, the function
  \<open>normalize\<close> run on a fresh type checker, is given the generator of that type checker
  and the opacity test of its converter; besides the normal form and the constraints it
  reports the declarations about which it consulted the opacity test, in order.
\<close>

record ('sb, 'ng, 'tc) kernel =
  dummy_expr :: expr
  ngen_next :: "'ng \<Rightarrow> name \<times> 'ng"
  ngen_mk_child :: "'ng \<Rightarrow> 'ng \<times> 'ng"
  mk_type_checkers :: "'ng \<Rightarrow> 'ng \<Rightarrow> 'ng \<Rightarrow> 'tc"
  normalize_tc :: "'ng \<Rightarrow> (name \<Rightarrow> bool) \<Rightarrow> expr \<Rightarrow>
                ('sb, 'ng) exn + (expr \<times> constraint list \<times> name list)"
  goal_mk_meta :: "goal \<Rightarrow> name \<Rightarrow> expr \<Rightarrow> expr"
  goal_get_hyps :: "goal \<Rightarrow> expr list"
  assign :: "'sb \<Rightarrow> goal \<Rightarrow> expr \<Rightarrow> 'sb"
  Pi_locals :: "expr list \<Rightarrow> expr \<Rightarrow> expr"
  apply_substitution :: "('sb, 'ng) proof_state \<Rightarrow> ('sb, 'ng) proof_state"
  m_elab :: "goal \<Rightarrow> 'ng \<Rightarrow> expr \<Rightarrow> ('sb, 'ng) exn + (expr \<times> constraint list)"
  get_pattern :: "('sb, 'ng) rewrite_fn_env \<Rightarrow> expr \<Rightarrow> ('sb, 'ng, 'tc) rewrite_fn \<Rightarrow>
                  ('sb, 'ng) exn + (expr \<times> ('sb, 'ng, 'tc) rewrite_fn)"
  check_system :: "('sb, 'ng, 'tc) rewrite_fn \<Rightarrow> ('sb, 'ng) exn option"
  process_rewrite_goal ::
    "('sb, 'ng) rewrite_fn_env \<Rightarrow> expr \<Rightarrow> expr \<Rightarrow> occurrence \<Rightarrow>
     ('sb, 'ng, 'tc) rewrite_fn \<Rightarrow> ('sb, 'ng) exn + (bool \<times> ('sb, 'ng, 'tc) rewrite_fn)"
  process_rewrite_hypothesis ::
    "('sb, 'ng) rewrite_fn_env \<Rightarrow> expr \<Rightarrow> expr \<Rightarrow> expr \<Rightarrow> occurrence \<Rightarrow>
     ('sb, 'ng, 'tc) rewrite_fn \<Rightarrow> ('sb, 'ng) exn + (bool \<times> ('sb, 'ng, 'tc) rewrite_fn)"
  process_fold_step ::
    "('sb, 'ng) rewrite_fn_env \<Rightarrow> expr \<Rightarrow> ('sb, 'ng, 'tc) rewrite_fn \<Rightarrow>
     ('sb, 'ng) exn + (bool \<times> ('sb, 'ng, 'tc) rewrite_fn)"
  process_reduce_to_step ::
    "('sb, 'ng) rewrite_fn_env \<Rightarrow> expr \<Rightarrow> location \<Rightarrow> ('sb, 'ng, 'tc) rewrite_fn \<Rightarrow>
     ('sb, 'ng) exn + (bool \<times> ('sb, 'ng, 'tc) rewrite_fn)"
  check_trivial_goal ::
    "('sb, 'ng) rewrite_fn_env \<Rightarrow> ('sb, 'ng, 'tc) rewrite_fn \<Rightarrow>
     ('sb, 'ng) exn + (bool \<times> ('sb, 'ng, 'tc) rewrite_fn)"

type_synonym ('sb, 'ng, 'tc) step_result =
  "('sb, 'ng) exn + (bool \<times> ('sb, 'ng, 'tc) rewrite_fn)"

subsection \<open>Accessors of the step macros and of local constants\<close>

fun is_rewrite_reduce_step :: "expr \<Rightarrow> bool" where
  "is_rewrite_reduce_step (Macro (RewriteReduceDef info) args) = True"
| "is_rewrite_reduce_step e = False"

fun is_rewrite_fold_step :: "expr \<Rightarrow> bool" where
  "is_rewrite_fold_step (Macro (RewriteFoldDef info) args) = True"
| "is_rewrite_fold_step e = False"

fun is_rewrite_unfold_step :: "expr \<Rightarrow> bool" where
  "is_rewrite_unfold_step (Macro (RewriteUnfoldDef info) args) = True"
| "is_rewrite_unfold_step e = False"

fun is_rewrite_step :: "expr \<Rightarrow> bool" where
  "is_rewrite_step (Macro (RewriteElementDef info) args) = True"
| "is_rewrite_step e = False"

text \<open>
  The accessors below assert the kind of their argument; outside the precondition the
  result is \<open>None\<close>, which the callers turn into \<open>AssertionViolation\<close>.
\<close>

fun get_rewrite_reduce_info :: "expr \<Rightarrow> reduce_info option" where
  "get_rewrite_reduce_info (Macro (RewriteReduceDef info) args) = Some info"
| "get_rewrite_reduce_info e = None"

fun get_rewrite_unfold_info :: "expr \<Rightarrow> unfold_info option" where
  "get_rewrite_unfold_info (Macro (RewriteUnfoldDef info) args) = Some info"
| "get_rewrite_unfold_info e = None"

fun get_rewrite_info :: "expr \<Rightarrow> rewrite_info option" where
  "get_rewrite_info (Macro (RewriteElementDef info) args) = Some info"
| "get_rewrite_info e = None"

fun macro_args :: "expr \<Rightarrow> expr list" where
  "macro_args (Macro d args) = args"
| "macro_args e = []"

definition macro_num_args :: "expr \<Rightarrow> nat" where
  "macro_num_args e = length (macro_args e)"

definition macro_arg :: "expr \<Rightarrow> nat \<Rightarrow> expr option" where
  "macro_arg e i = (if i < macro_num_args e then Some (macro_args e ! i) else None)"

fun macro_def_of :: "expr \<Rightarrow> macro_def option" where
  "macro_def_of (Macro d args) = Some d"
| "macro_def_of e = None"

definition has_rewrite_pattern :: "expr \<Rightarrow> bool" where
  "has_rewrite_pattern e = (macro_num_args e = 2)"

definition get_rewrite_rule :: "expr \<Rightarrow> expr option" where
  "get_rewrite_rule e = (if is_rewrite_step e then macro_arg e 0 else None)"

definition get_rewrite_pattern :: "expr \<Rightarrow> expr option" where
  "get_rewrite_pattern e = (if has_rewrite_pattern e then macro_arg e 1 else None)"

fun mlocal_name :: "expr \<Rightarrow> name option" where
  "mlocal_name (Local n pp t bi) = Some n"
| "mlocal_name (Meta n t) = Some n"
| "mlocal_name e = None"

fun mlocal_type :: "expr \<Rightarrow> expr option" where
  "mlocal_type (Local n pp t bi) = Some t"
| "mlocal_type (Meta n t) = Some t"
| "mlocal_type e = None"

fun local_pp_name :: "expr \<Rightarrow> name option" where
  "local_pp_name (Local n pp t bi) = Some pp"
| "local_pp_name e = None"

fun update_mlocal :: "expr \<Rightarrow> expr \<Rightarrow> expr" where
  "update_mlocal (Local n pp t bi) new_type = Local n pp new_type bi"
| "update_mlocal (Meta n t) new_type = Meta n new_type"
| "update_mlocal e new_type = e"

subsection \<open>Unfold and reduce steps\<close>

definition update_goal :: "goal \<Rightarrow> ('sb, 'ng, 'tc) rewrite_fn \<Rightarrow> ('sb, 'ng, 'tc) rewrite_fn" where
  "update_goal g st = st\<lparr>m_g := g\<rparr>"

text \<open>
  \<open>rewriter_converter::is_opaque\<close>: a declaration named in \<open>m_to_unfold\<close> is not opaque,
  and asking about it sets \<open>m_unfolded\<close>; every other declaration is opaque.
\<close>

definition is_opaque :: "name list \<Rightarrow> name \<Rightarrow> bool" where
  "is_opaque to_unfold d = (d \<notin> set to_unfold)"

definition unfolded_after :: "name list \<Rightarrow> bool \<Rightarrow> name list \<Rightarrow> bool" where
  "unfolded_after to_unfold unfolded asked =
     (unfolded \<or> list_ex (\<lambda>d. \<not> is_opaque to_unfold d) asked)"

definition reduce ::
  "('sb, 'ng, 'tc) kernel \<Rightarrow> expr \<Rightarrow> name list \<Rightarrow> ('sb, 'ng, 'tc) rewrite_fn \<Rightarrow>
   ('sb, 'ng) exn + (expr option \<times> ('sb, 'ng, 'tc) rewrite_fn)" where
  "reduce K e to_unfold st =
     (let unfolded = (to_unfold = []);
          (child, ngen) = ngen_mk_child K (m_ngen st);
          st = st\<lparr>m_ngen := ngen\<rparr>
      in case normalize_tc K child (is_opaque to_unfold) e of
           Inl ex \<Rightarrow> Inl ex
         | Inr (r, cs, asked) \<Rightarrow>
             if \<not> unfolded_after to_unfold unfolded asked \<or> cs \<noteq> [] then Inr (None, st)
             else Inr (Some r, st))"

definition replace_goal ::
  "('sb, 'ng, 'tc) kernel \<Rightarrow> expr \<Rightarrow> ('sb, 'ng, 'tc) rewrite_fn \<Rightarrow> ('sb, 'ng, 'tc) rewrite_fn" where
  "replace_goal K new_type st =
     (let (n, ngen) = ngen_next K (m_ngen st);
          M = goal_mk_meta K (m_g st) n new_type;
          new_g = \<lparr>get_meta = M, get_type = new_type\<rparr>;
          s = assign K (m_subst st) (m_g st) M
      in update_goal new_g (st\<lparr>m_ngen := ngen, m_subst := s\<rparr>))"

definition process_reduce_goal ::
  "('sb, 'ng, 'tc) kernel \<Rightarrow> name list \<Rightarrow> ('sb, 'ng, 'tc) rewrite_fn \<Rightarrow>
   ('sb, 'ng, 'tc) step_result" where
  "process_reduce_goal K to_unfold st =
     (case reduce K (get_type (m_g st)) to_unfold st of
        Inl ex \<Rightarrow> Inl ex
      | Inr (Some new_type, st') \<Rightarrow> Inr (True, replace_goal K new_type st')
      | Inr (None, st') \<Rightarrow> Inr (False, st'))"

text \<open>The loop of \<open>replace_hypothesis\<close>: the first entry that satisfies the test is replaced.\<close>

fun replace_first :: "('a \<Rightarrow> bool) \<Rightarrow> 'a \<Rightarrow> 'a list \<Rightarrow> 'a list" where
  "replace_first P y [] = []"
| "replace_first P y (x # xs) = (if P x then y # xs else x # replace_first P y xs)"

definition replace_hypothesis ::
  "('sb, 'ng, 'tc) kernel \<Rightarrow> expr \<Rightarrow> expr \<Rightarrow> ('sb, 'ng, 'tc) rewrite_fn \<Rightarrow>
   ('sb, 'ng, 'tc) rewrite_fn" where
  "replace_hypothesis K hyp new_hyp_type st =
     (let new_hyp = update_mlocal hyp new_hyp_type;
          new_hyps = replace_first (\<lambda>h. mlocal_name h = mlocal_name hyp) new_hyp
                       (goal_get_hyps K (m_g st));
          new_type = get_type (m_g st);
          (n, ngen) = ngen_next K (m_ngen st);
          new_mvar = Meta n (Pi_locals K new_hyps new_type);
          new_meta = mk_app new_mvar new_hyps;
          new_g = \<lparr>get_meta = new_meta, get_type = new_type\<rparr>;
          s = assign K (m_subst st) (m_g st) new_meta
      in update_goal new_g (st\<lparr>m_ngen := ngen, m_subst := s\<rparr>))"

definition process_reduce_hypothesis ::
  "('sb, 'ng, 'tc) kernel \<Rightarrow> expr \<Rightarrow> name list \<Rightarrow> ('sb, 'ng, 'tc) rewrite_fn \<Rightarrow>
   ('sb, 'ng, 'tc) step_result" where
  "process_reduce_hypothesis K hyp to_unfold st =
     (case mlocal_type hyp of
        None \<Rightarrow> Inl AssertionViolation
      | Some hyp_type \<Rightarrow>
          (case reduce K hyp_type to_unfold st of
             Inl ex \<Rightarrow> Inl ex
           | Inr (Some new_hyp_type, st') \<Rightarrow>
               Inr (True, replace_hypothesis K hyp new_hyp_type st')
           | Inr (None, st') \<Rightarrow> Inr (False, st')))"

text \<open>The loop of \<open>process_reduce_step\<close> over the hypotheses of the goal it started from.\<close>

fun process_reduce_hyps ::
  "('sb, 'ng, 'tc) kernel \<Rightarrow> name list \<Rightarrow> location \<Rightarrow> expr list \<Rightarrow> bool \<Rightarrow>
   ('sb, 'ng, 'tc) rewrite_fn \<Rightarrow> ('sb, 'ng, 'tc) step_result" where
  "process_reduce_hyps K to_unfold loc [] progress st = Inr (progress, st)"
| "process_reduce_hyps K to_unfold loc (h # hyps) progress st =
     (case local_pp_name h of
        None \<Rightarrow> Inl AssertionViolation
      | Some pp \<Rightarrow>
          (case includes_hypothesis loc pp of
             None \<Rightarrow> process_reduce_hyps K to_unfold loc hyps progress st
           | Some occ \<Rightarrow>
               (case process_reduce_hypothesis K h to_unfold st of
                  Inl ex \<Rightarrow> Inl ex
                | Inr (ok, st') \<Rightarrow>
                    process_reduce_hyps K to_unfold loc hyps (if ok then True else progress) st')))"

definition process_reduce_step ::
  "('sb, 'ng, 'tc) kernel \<Rightarrow> name list \<Rightarrow> location \<Rightarrow> ('sb, 'ng, 'tc) rewrite_fn \<Rightarrow>
   ('sb, 'ng, 'tc) step_result" where
  "process_reduce_step K to_unfold loc st =
     (if is_goal_only loc then process_reduce_goal K to_unfold st
      else
        (case process_reduce_hyps K to_unfold loc (goal_get_hyps K (m_g st)) False st of
           Inl ex \<Rightarrow> Inl ex
         | Inr (progress, st') \<Rightarrow>
             (case includes_goal loc of
                None \<Rightarrow> Inr (progress, st')
              | Some occ \<Rightarrow>
                  (case process_reduce_goal K to_unfold st' of
                     Inl ex \<Rightarrow> Inl ex
                   | Inr (ok, st'') \<Rightarrow> Inr (if ok then True else progress, st'')))))"

definition process_unfold_step ::
  "('sb, 'ng, 'tc) kernel \<Rightarrow> expr \<Rightarrow> ('sb, 'ng, 'tc) rewrite_fn \<Rightarrow>
   ('sb, 'ng, 'tc) step_result" where
  "process_unfold_step K elem st =
     (case get_rewrite_unfold_info elem of
        None \<Rightarrow> Inl AssertionViolation
      | Some info \<Rightarrow> process_reduce_step K (m_names info) (m_location_unfold info) st)"

text \<open>\<open>process_reduce_step(expr const & elem)\<close>, the overload that takes the step.\<close>

definition process_reduce_step_elem ::
  "('sb, 'ng, 'tc) kernel \<Rightarrow> ('sb, 'ng) rewrite_fn_env \<Rightarrow> expr \<Rightarrow>
   ('sb, 'ng, 'tc) rewrite_fn \<Rightarrow> ('sb, 'ng, 'tc) step_result" where
  "process_reduce_step_elem K C elem st =
     (case get_rewrite_reduce_info elem of
        None \<Rightarrow> Inl AssertionViolation
      | Some info \<Rightarrow>
          if macro_num_args elem = 0 then
            process_reduce_step K [] (m_location_reduce info) st
          else
            (case macro_arg elem 0 of
               None \<Rightarrow> Inl AssertionViolation
             | Some e \<Rightarrow> process_reduce_to_step K C e (m_location_reduce info) st))"

subsection \<open>Element steps and their repetition\<close>

definition clear_trace :: "('sb, 'ng, 'tc) rewrite_fn \<Rightarrow> ('sb, 'ng, 'tc) rewrite_fn" where
  "clear_trace st = st\<lparr>m_trace_initialized := False\<rparr>"

definition init_trace ::
  "('sb, 'ng) rewrite_fn_env \<Rightarrow> expr \<Rightarrow> expr \<Rightarrow> ('sb, 'ng, 'tc) rewrite_fn \<Rightarrow>
   ('sb, 'ng, 'tc) rewrite_fn" where
  "init_trace C lemma_expr pattern st =
     (if m_use_trace C then
        st\<lparr>m_trace_initialized := True,
           m_trace := \<lparr>m_lemma = lemma_expr, m_pattern = pattern, m_targets = []\<rparr>\<rparr>
      else st)"

text \<open>
  One application of an element step to the targets of its location: the goal alone, or
  the selected hypotheses of the goal it started from and then, when the location includes
  it, the goal. The application made progress when one target was rewritten.
\<close>

fun process_rewrite_hyps ::
  "('sb, 'ng, 'tc) kernel \<Rightarrow> ('sb, 'ng) rewrite_fn_env \<Rightarrow> expr \<Rightarrow> expr \<Rightarrow> location \<Rightarrow>
   expr list \<Rightarrow> bool \<Rightarrow> ('sb, 'ng, 'tc) rewrite_fn \<Rightarrow> ('sb, 'ng, 'tc) step_result" where
  "process_rewrite_hyps K C orig_elem pattern loc [] progress st = Inr (progress, st)"
| "process_rewrite_hyps K C orig_elem pattern loc (h # hyps) progress st =
     (case local_pp_name h of
        None \<Rightarrow> Inl AssertionViolation
      | Some pp \<Rightarrow>
          (case includes_hypothesis loc pp of
             None \<Rightarrow> process_rewrite_hyps K C orig_elem pattern loc hyps progress st
           | Some occ \<Rightarrow>
               (case process_rewrite_hypothesis K C h orig_elem pattern occ st of
                  Inl ex \<Rightarrow> Inl ex
                | Inr (ok, st') \<Rightarrow>
                    process_rewrite_hyps K C orig_elem pattern loc hyps
                      (if ok then True else progress) st')))"

definition process_rewrite_single_step ::
  "('sb, 'ng, 'tc) kernel \<Rightarrow> ('sb, 'ng) rewrite_fn_env \<Rightarrow> expr \<Rightarrow> expr \<Rightarrow>
   ('sb, 'ng, 'tc) rewrite_fn \<Rightarrow> ('sb, 'ng, 'tc) step_result" where
  "process_rewrite_single_step K C orig_elem pattern st =
     (case check_system K st of
        Some ex \<Rightarrow> Inl ex
      | None \<Rightarrow>
          (case get_rewrite_info orig_elem of
             None \<Rightarrow> Inl AssertionViolation
           | Some info \<Rightarrow>
               (let loc = m_location info
                in if is_goal_only loc then
                     (case includes_goal loc of
                        None \<Rightarrow> Inl AssertionViolation
                      | Some occ \<Rightarrow> process_rewrite_goal K C orig_elem pattern occ st)
                   else
                     (case process_rewrite_hyps K C orig_elem pattern loc
                             (goal_get_hyps K (m_g st)) False st of
                        Inl ex \<Rightarrow> Inl ex
                      | Inr (progress, st') \<Rightarrow>
                          (case includes_goal loc of
                             None \<Rightarrow> Inr (progress, st')
                           | Some occ \<Rightarrow>
                               (case process_rewrite_goal K C orig_elem pattern occ st' of
                                  Inl ex \<Rightarrow> Inl ex
                                | Inr (ok, st'') \<Rightarrow>
                                    Inr (if ok then True else progress, st'')))))))"

definition throw_max_iter_exceeded :: "('sb, 'ng) rewrite_fn_env \<Rightarrow> ('sb, 'ng) exn" where
  "throw_max_iter_exceeded C =
     GenericException (max_iter_exceeded_message (m_max_iter C)) (m_expr_loc C)"

definition check_max_iter :: "('sb, 'ng) rewrite_fn_env \<Rightarrow> 32 word \<Rightarrow> ('sb, 'ng) exn + unit" where
  "check_max_iter C i = (if i \<ge> m_max_iter C then Inl (throw_max_iter_exceeded C) else Inr ())"

text \<open>
  The loops of \<open>process_rewrite_step\<close> have the shape
  \<open>for (i = 0; i < bound; i++) { if (!process_rewrite_single_step(..)) return ..; }\<close>
  with a bound that no iteration changes. \<open>for_loop step k st\<close> runs the body at most \<open>k\<close>
  times from \<open>st\<close>: it is left by the \<open>return\<close> as soon as an application fails
  (\<open>LoopReturn\<close>), or by the bound after \<open>k\<close> successful applications, then with \<open>i = k\<close>
  (\<open>LoopDone\<close>). The counter stays below the bound, an \<open>unsigned\<close>, so it does not wrap.
\<close>

datatype loop_exit = LoopReturn | LoopDone

fun for_loop ::
  "('st \<Rightarrow> 'e + (bool \<times> 'st)) \<Rightarrow> nat \<Rightarrow> 'st \<Rightarrow> 'e + (loop_exit \<times> 'st)" where
  "for_loop step 0 st = Inr (LoopDone, st)"
| "for_loop step (Suc k) st =
     (case step st of
        Inl ex \<Rightarrow> Inl ex
      | Inr (ok, st') \<Rightarrow> if \<not> ok then Inr (LoopReturn, st') else for_loop step k st')"

definition process_rewrite_step ::
  "('sb, 'ng, 'tc) kernel \<Rightarrow> ('sb, 'ng) rewrite_fn_env \<Rightarrow> expr \<Rightarrow> expr \<Rightarrow>
   ('sb, 'ng, 'tc) rewrite_fn \<Rightarrow> ('sb, 'ng, 'tc) step_result" where
  "process_rewrite_step K C elem orig_elem st0 =
     (case get_pattern K C elem st0 of
        Inl ex \<Rightarrow> Inl ex
      | Inr (pattern, st1) \<Rightarrow>
          (let st = init_trace C orig_elem pattern st1;
               step = process_rewrite_single_step K C orig_elem pattern
           in case get_rewrite_info elem of
                None \<Rightarrow> Inl AssertionViolation
              | Some info \<Rightarrow>
                  (case m_multiplicity info of
                     Once \<Rightarrow> step st
                   | AtMostN \<Rightarrow>
                       (case m_num info of
                          None \<Rightarrow> Inl AssertionViolation
                        | Some num \<Rightarrow>
                            (case for_loop step (unat (min num (m_max_iter C))) st of
                               Inl ex \<Rightarrow> Inl ex
                             | Inr (LoopReturn, st') \<Rightarrow> Inr (True, st')
                             | Inr (LoopDone, st') \<Rightarrow>
                                 (case check_max_iter C (min num (m_max_iter C)) of
                                    Inl ex \<Rightarrow> Inl ex
                                  | Inr u \<Rightarrow> Inr (True, st'))))
                   | ExactlyN \<Rightarrow>
                       (case m_num info of
                          None \<Rightarrow> Inl AssertionViolation
                        | Some num \<Rightarrow>
                            (case for_loop step (unat (min num (m_max_iter C))) st of
                               Inl ex \<Rightarrow> Inl ex
                             | Inr (LoopReturn, st') \<Rightarrow> Inr (False, st')
                             | Inr (LoopDone, st') \<Rightarrow>
                                 (case check_max_iter C (min num (m_max_iter C)) of
                                    Inl ex \<Rightarrow> Inl ex
                                  | Inr u \<Rightarrow> Inr (True, st'))))
                   | ZeroOrMore \<Rightarrow>
                       (case for_loop step (unat (m_max_iter C)) st of
                          Inl ex \<Rightarrow> Inl ex
                        | Inr (LoopReturn, st') \<Rightarrow> Inr (True, st')
                        | Inr (LoopDone, st') \<Rightarrow> Inl (throw_max_iter_exceeded C))
                   | OneOrMore \<Rightarrow>
                       (case step st of
                          Inl ex \<Rightarrow> Inl ex
                        | Inr (ok, st') \<Rightarrow>
                            if \<not> ok then Inr (False, st')
                            else
                              (case for_loop step (unat (m_max_iter C)) st' of
                                 Inl ex \<Rightarrow> Inl ex
                               | Inr (LoopReturn, st'') \<Rightarrow> Inr (True, st'')
                               | Inr (LoopDone, st'') \<Rightarrow> Inl (throw_max_iter_exceeded C))))))"

text \<open>
  \<open>process_step\<close>: the dispatch on the kind of the step. For an element step the rule, or
  the explicit pattern when there is one, is elaborated first (the constraints of the
  elaboration are dropped) with a child of the name generator.
\<close>

definition process_step ::
  "('sb, 'ng, 'tc) kernel \<Rightarrow> ('sb, 'ng) rewrite_fn_env \<Rightarrow> expr \<Rightarrow>
   ('sb, 'ng, 'tc) rewrite_fn \<Rightarrow> ('sb, 'ng, 'tc) step_result" where
  "process_step K C elem st0 =
     (let st = clear_trace st0
      in if is_rewrite_unfold_step elem then process_unfold_step K elem st
         else if is_rewrite_fold_step elem then process_fold_step K C elem st
         else if is_rewrite_reduce_step elem then process_reduce_step_elem K C elem st
         else
           (case (get_rewrite_rule elem, macro_def_of elem) of
              (Some rule, Some d) \<Rightarrow>
                (let (child, ngen) = ngen_mk_child K (m_ngen st);
                     st1 = st\<lparr>m_ngen := ngen\<rparr>
                 in if has_rewrite_pattern elem then
                      (case get_rewrite_pattern elem of
                         None \<Rightarrow> Inl AssertionViolation
                       | Some pat \<Rightarrow>
                           (case m_elab K (m_g st) child pat of
                              Inl ex \<Rightarrow> Inl ex
                            | Inr (pattern, cs) \<Rightarrow>
                                process_rewrite_step K C (Macro d [rule, pattern]) elem st1))
                    else
                      (case m_elab K (m_g st) child rule of
                         Inl ex \<Rightarrow> Inl ex
                       | Inr (rule', cs) \<Rightarrow>
                           process_rewrite_step K C (Macro d [rule']) elem st1))
            | _ \<Rightarrow> Inl AssertionViolation))"

subsection \<open>The tactic\<close>

text \<open>
  The constructor of \<open>rewrite_fn\<close>. The three type checkers take one child each of the
  name generator of the proof state. The goals of the proof state must not be empty.
  \<open>m_trace_initialized\<close> is left uninitialised by the source; every \<open>process_step\<close> clears
  it before it is read.
\<close>

definition mk_rewrite_fn ::
  "('sb, 'ng, 'tc) kernel \<Rightarrow> options \<Rightarrow> ('sb, 'ng) proof_state \<Rightarrow>
   ('sb, 'ng) exn + (('sb, 'ng) rewrite_fn_env \<times> ('sb, 'ng, 'tc) rewrite_fn)" where
  "mk_rewrite_fn K opts ps =
     (let (c1, ngen1) = ngen_mk_child K (get_ngen ps);
          (c2, ngen2) = ngen_mk_child K ngen1;
          (c3, ngen3) = ngen_mk_child K ngen2;
          ps' = apply_substitution K ps
      in case get_goals ps' of
           [] \<Rightarrow> Inl AssertionViolation
         | g # gs \<Rightarrow>
             Inr (\<lparr>m_ps = ps', m_expr_loc = dummy_expr K,
                   m_use_trace = get_rewriter_trace opts,
                   m_max_iter = get_rewriter_max_iterations opts\<rparr>,
                  \<lparr>m_ngen = ngen3, m_tc = mk_type_checkers K c1 c2 c3, m_g = g,
                   m_subst = get_subst ps', m_trace_initialized = False,
                   m_trace = \<lparr>m_lemma = dummy_expr K, m_pattern = dummy_expr K,
                              m_targets = []\<rparr>\<rparr>))"

text \<open>
  The proof state that \<open>operator()\<close> builds from the working members: the current goal in
  front of the other goals of \<open>m_ps\<close>, the current substitution and name generator.
\<close>

definition curr_proof_state ::
  "('sb, 'ng) rewrite_fn_env \<Rightarrow> ('sb, 'ng, 'tc) rewrite_fn \<Rightarrow> ('sb, 'ng) proof_state" where
  "curr_proof_state C st =
     mk_proof_state (m_ps C) (m_g st # tl (get_goals (m_ps C))) (m_subst st) (m_ngen st)"

text \<open>
  \<open>operator()\<close>: the steps in order, the first failing step ends the run; a proof-state
  sequence is a list.
\<close>

fun rewrite_fn_call ::
  "('sb, 'ng, 'tc) kernel \<Rightarrow> ('sb, 'ng) rewrite_fn_env \<Rightarrow> expr list \<Rightarrow>
   ('sb, 'ng, 'tc) rewrite_fn \<Rightarrow> ('sb, 'ng) exn + ('sb, 'ng) proof_state list" where
  "rewrite_fn_call K C [] st =
     (case check_trivial_goal K C st of
        Inl ex \<Rightarrow> Inl ex
      | Inr (trivial, st') \<Rightarrow>
          (let new_gs = (if trivial then tl (get_goals (m_ps C))
                         else m_g st' # tl (get_goals (m_ps C)))
           in Inr [mk_proof_state (m_ps C) new_gs (m_subst st') (m_ngen st')]))"
| "rewrite_fn_call K C (elem # elems) st =
     (case process_step K (C\<lparr>m_expr_loc := elem\<rparr>) elem st of
        Inl ex \<Rightarrow> Inl ex
      | Inr (ok, st') \<Rightarrow>
          if \<not> ok then
            (if report_failure (m_ps C) then
               (let curr_ps = curr_proof_state C st'
                in if \<not> m_use_trace C \<or> \<not> m_trace_initialized st' then
                     Inl (TacticException ''rewrite step failed'' (Some elem) curr_ps None)
                   else
                     Inl (TacticException ''rewrite step failed'' (Some elem) curr_ps
                            (Some (m_trace st'))))
             else Inr [])
          else rewrite_fn_call K C elems st')"

definition mk_rewrite_tactic ::
  "('sb, 'ng, 'tc) kernel \<Rightarrow> expr list \<Rightarrow> options \<Rightarrow> ('sb, 'ng) proof_state \<Rightarrow>
   ('sb, 'ng) exn + ('sb, 'ng) proof_state list" where
  "mk_rewrite_tactic K elems opts s =
     (if get_goals s = [] then
        (case throw_no_goal_if_enabled s of
           Inl ex \<Rightarrow> Inl ex
         | Inr u \<Rightarrow> Inr [])
      else
        (case mk_rewrite_fn K opts s of
           Inl ex \<Rightarrow> Inl ex
         | Inr (C, st) \<Rightarrow> rewrite_fn_call K C elems st))"

subsection \<open>Outcomes of steps\<close>

text \<open>A step, or a single application, succeeded: it returned, and it returned true.\<close>

definition step_succeeded :: "'e + (bool \<times> 'st) \<Rightarrow> bool" where
  "step_succeeded r = (case r of Inl ex \<Rightarrow> False | Inr (ok, st) \<Rightarrow> ok)"

text \<open>\<open>successes step m st\<close>: the state after \<open>m\<close> applications in a row that all succeed.\<close>

fun successes :: "('st \<Rightarrow> 'e + (bool \<times> 'st)) \<Rightarrow> nat \<Rightarrow> 'st \<Rightarrow> 'st option" where
  "successes step 0 st = Some st"
| "successes step (Suc m) st =
     (case step st of
        Inl ex \<Rightarrow> None
      | Inr (ok, st') \<Rightarrow> if ok then successes step m st' else None)"

section \<open>A small kernel interface for concrete runs\<close>

text \<open>
  The theorems below hold for every kernel interface. To run the model on concrete inputs
  the interface is instantiated with a small one: the name generator is a counter, the
  substitution is the list of assignments made, the normaliser replaces every constant
  that is not opaque by a sort, and a rewrite of the goal strips the outermost application
  from the goal's type and fails when there is none; hypotheses are never rewritten.
\<close>

fun small_normalize :: "(name \<Rightarrow> bool) \<Rightarrow> expr \<Rightarrow> expr \<times> name list" where
  "small_normalize opq (Constant n ls) = (if opq n then Constant n ls else Sort LZero, [n])"
| "small_normalize opq (App f a) =
     (case small_normalize opq f of (f', ns) \<Rightarrow>
        (case small_normalize opq a of (a', ms) \<Rightarrow> (App f' a', ns @ ms)))"
| "small_normalize opq e = (e, [])"

type_synonym small_subst = "(goal \<times> expr) list"

definition small_rewrite_goal ::
  "(small_subst, nat, unit) rewrite_fn \<Rightarrow> (small_subst, nat, unit) step_result" where
  "small_rewrite_goal st =
     (case get_type (m_g st) of
        App f a \<Rightarrow> Inr (True, st\<lparr>m_g := \<lparr>get_meta = get_meta (m_g st), get_type = a\<rparr>\<rparr>)
      | _ \<Rightarrow> Inr (False, st))"

definition small_kernel :: "(small_subst, nat, unit) kernel" where
  "small_kernel =
     \<lparr>dummy_expr = Var 0,
      ngen_next = (\<lambda>n. ([''n'', show_nat n], Suc n)),
      ngen_mk_child = (\<lambda>n. (n, Suc n)),
      mk_type_checkers = (\<lambda>c1 c2 c3. ()),
      normalize_tc = (\<lambda>ngen opq e. case small_normalize opq e of (r, asked) \<Rightarrow> Inr (r, [], asked)),
      goal_mk_meta = (\<lambda>g n t. Meta n t),
      goal_get_hyps = (\<lambda>g. snd (get_app_args (get_meta g))),
      assign = (\<lambda>s g e. (g, e) # s),
      Pi_locals = (\<lambda>hyps t. t),
      apply_substitution = (\<lambda>ps. ps),
      m_elab = (\<lambda>g ngen e. Inr (e, [])),
      get_pattern = (\<lambda>C e st. Inr (e, st)),
      check_system = (\<lambda>st. None),
      process_rewrite_goal = (\<lambda>C orig_elem pattern occ st. small_rewrite_goal st),
      process_rewrite_hypothesis = (\<lambda>C hyp orig_elem pattern occ st. Inr (False, st)),
      process_fold_step = (\<lambda>C e st. Inr (False, st)),
      process_reduce_to_step = (\<lambda>C e loc st. Inr (False, st)),
      check_trivial_goal = (\<lambda>C st. Inr (False, st))\<rparr>"

text \<open>The same interface with a rewrite of the goal that always succeeds.\<close>

definition always_kernel :: "(small_subst, nat, unit) kernel" where
  "always_kernel =
     small_kernel\<lparr>process_rewrite_goal := (\<lambda>C orig_elem pattern occ st. Inr (True, st))\<rparr>"

definition small_goal :: "expr \<Rightarrow> goal" where
  "small_goal t = \<lparr>get_meta = Meta [''m''] t, get_type = t\<rparr>"

definition small_proof_state :: "expr \<Rightarrow> (small_subst, nat) proof_state" where
  "small_proof_state t =
     \<lparr>get_goals = [small_goal t], get_subst = [], get_ngen = 0, report_failure = True\<rparr>"

definition small_rewrite_fn :: "expr \<Rightarrow> (small_subst, nat, unit) rewrite_fn" where
  "small_rewrite_fn t =
     \<lparr>m_ngen = 0, m_tc = (), m_g = small_goal t, m_subst = [], m_trace_initialized = False,
      m_trace = \<lparr>m_lemma = Var 0, m_pattern = Var 0, m_targets = []\<rparr>\<rparr>"

definition small_env :: "expr \<Rightarrow> expr \<Rightarrow> 32 word \<Rightarrow> (small_subst, nat) rewrite_fn_env" where
  "small_env t elem max_iter =
     \<lparr>m_ps = small_proof_state t, m_expr_loc = elem, m_use_trace = False, m_max_iter = max_iter\<rparr>"

text \<open>The options with \<open>rewriter.max_iter\<close> set to a value and \<open>rewriter.trace\<close> off.\<close>

definition small_options :: "32 word \<Rightarrow> options" where
  "small_options max_iter =
     (\<lambda>n. if n = g_rewriter_max_iterations then Some (UnsignedValue max_iter)
          else if n = g_rewriter_trace then Some (BoolValue False)
          else None)"

text \<open>Sample terms: a rule, and a goal type with two applications to strip.\<close>

definition small_rule :: expr where
  "small_rule = Constant [''h''] []"

definition small_type2 :: expr where
  "small_type2 = App (Constant [''f''] []) (App (Constant [''f''] []) (Var 0))"

text \<open>
  A parser state for concrete runs: the local table declares \<open>a\<close>, \<open>b\<close> and \<open>c\<close>, in
  this order, and \<open>a\<close> is a variable.
\<close>

definition small_local :: "string \<Rightarrow> expr" where
  "small_local x = Local [x] [x] (Sort LZero) BinderDefault"

definition small_parser :: parser where
  "small_parser =
     \<lparr>is_local_decl = (\<lambda>e. e = small_local ''a'' \<or> e = small_local ''b'' \<or> e = small_local ''c''),
      is_local_variable = (\<lambda>e. e = small_local ''a''),
      get_local_index =
        (\<lambda>e. if e = small_local ''a'' then 0 else if e = small_local ''b'' then 1 else 2)\<rparr>"

section \<open>Properties of the memory pool\<close>

text \<open>
  A block obtained from the pool is not the null pointer, as long as the general allocator
  returns none: a block taken from the free list has passed the test against \<open>nullptr\<close>.
\<close>

lemma allocate_not_nullptr:
  assumes "\<And>n a. fst (malloc n a) \<noteq> nullptr"
  shows "fst (allocate malloc p) \<noteq> nullptr"
  using assms [of "m_size p" "allocator p"]
  by (auto simp: allocate_def Let_def split: prod.splits)

text \<open>
  Claim C9. For every pool and every block \<open>b\<close> other than the null pointer, as every
  block obtained from the pool is, the call of \<open>allocate\<close> that directly follows
  \<open>recycle b\<close> returns exactly \<open>b\<close>, whatever the pool held before and whatever the
  general allocator would have returned; the free list and the allocator are then as they
  were before the \<open>recycle\<close>.
\<close>

theorem allocate_after_recycle:
  assumes "b \<noteq> nullptr"
  shows "fst (allocate malloc (recycle b p)) = b \<and>
         m_free_list (snd (allocate malloc (recycle b p))) = m_free_list p \<and>
         allocator (snd (allocate malloc (recycle b p))) = allocator p"
  using assms by (simp add: allocate_def recycle_def)

theorem allocate_after_recycle_witness:
  "(4096 :: ptr) \<noteq> nullptr \<and>
   fst (allocate (\<lambda>n a. (8192, Suc a))
          (recycle 4096 (mk_memory_pool 16 (\<lambda>a. 0) (0::nat)))) = 4096"
  using allocate_after_recycle [of 4096 "\<lambda>n a. (8192, Suc a)" "mk_memory_pool 16 (\<lambda>a. 0) (0::nat)"]
  by (simp add: nullptr_def)

section \<open>Properties of local references\<close>

lemma get_app_args_foldl:
  "get_app_args (foldl App f args) = (fst (get_app_args f), snd (get_app_args f) @ args)"
  by (induction args arbitrary: f) (simp_all split: prod.splits)

lemma is_app_foldl: "args \<noteq> [] \<Longrightarrow> is_app (foldl App f args)"
  by (induction args arbitrary: f rule: rev_induct) simp_all

lemma list_all_is_explicit_local:
  "list_all is_explicit_local (map mk_explicit ps) = list_all is_local ps"
  by (induction ps) (simp_all add: is_explicit_local_def mk_explicit_def)

text \<open>
  Claim C5, as the code has it. \<open>is_local_ref\<close> rejects a term whose as-atomic argument is
  not an application, so it recognises \<open>mk_local_ref n ls ps\<close> exactly when \<open>ps\<close> is a
  non-empty list of local constants: for every name, every level list and every non-empty
  list of local constants the answer is true, and for the empty list it is false.
\<close>

theorem is_local_ref_mk_local_ref:
  "is_local_ref (mk_local_ref n ls ps) = (ps \<noteq> [] \<and> list_all is_local ps)"
proof (cases "ps = []")
  case True
  then show ?thesis
    by (simp add: is_local_ref_def mk_local_ref_def mk_as_atomic_def mk_app_def mk_explicit_def)
next
  case False
  then have "is_app (foldl App (mk_explicit (mk_constant n ls)) (map mk_explicit ps))"
    by (simp add: is_app_foldl)
  with False show ?thesis
    by (simp add: is_local_ref_def mk_local_ref_def mk_as_atomic_def mk_app_def
        get_app_args_foldl list_all_is_explicit_local)
      (simp add: mk_explicit_def mk_constant_def)
qed

theorem is_local_ref_mk_local_ref_witness:
  "is_local_ref (mk_local_ref [''f''] [LParam [''u'']]
     [Local [''a''] [''a''] (Sort LZero) BinderDefault,
      Local [''b''] [''b''] (Sort LZero) BinderImplicit])"
  using is_local_ref_mk_local_ref [of "[''f'']" "[LParam [''u'']]"
      "[Local [''a''] [''a''] (Sort LZero) BinderDefault,
        Local [''b''] [''b''] (Sort LZero) BinderImplicit]"]
  by simp

text \<open>
  Claim C5 as stated fails at the empty parameter list: \<open>mk_local_ref\<close> then yields the
  as-atomic wrapper of the explicit constant, which is no application.
\<close>

theorem is_local_ref_empty_params_counterexample:
  "\<not> is_local_ref (mk_local_ref [''f''] [] [])"
  by (simp add: is_local_ref_def mk_local_ref_def mk_as_atomic_def mk_app_def mk_explicit_def)

section \<open>Properties of sorting locals\<close>

lemma set_insert_by: "set (insert_by lt x ys) = insert x (set ys)"
  by (induction ys) auto

lemma mset_insert_by: "mset (insert_by lt x ys) = add_mset x (mset ys)"
  by (induction ys) simp_all

lemma mset_std_sort: "mset (std_sort lt xs) = mset xs"
  by (induction xs) (simp_all add: std_sort_def mset_insert_by)

lemma sorted_wrt_insert_by:
  assumes tr: "\<And>a b c. Q a b \<Longrightarrow> Q b c \<Longrightarrow> Q a c"
    and lt: "\<And>a b. lt a b \<Longrightarrow> Q a b"
    and nlt: "\<And>a b. \<not> lt a b \<Longrightarrow> Q b a"
  shows "sorted_wrt Q ys \<Longrightarrow> sorted_wrt Q (insert_by lt x ys)"
proof (induction ys)
  case Nil
  show ?case by simp
next
  case (Cons y ys)
  show ?case
  proof (cases "lt x y")
    case True
    then have xy: "Q x y" by (rule lt)
    have "Q x z" if "z \<in> set ys" for z
      using Cons.prems that tr [OF xy] by simp
    with xy Cons.prems True show ?thesis by simp
  next
    case False
    then have "Q y x" by (rule nlt)
    with Cons False show ?thesis by (simp add: set_insert_by)
  qed
qed

lemma sorted_wrt_std_sort:
  assumes "\<And>a b c. Q a b \<Longrightarrow> Q b c \<Longrightarrow> Q a c"
    and "\<And>a b. lt a b \<Longrightarrow> Q a b"
    and "\<And>a b. \<not> lt a b \<Longrightarrow> Q b a"
  shows "sorted_wrt Q (std_sort lt xs)"
proof (induction xs)
  case Nil
  show ?case by (simp add: std_sort_def)
next
  case (Cons x xs)
  have "sorted_wrt Q (insert_by lt x (std_sort lt xs))"
    using assms Cons by (rule sorted_wrt_insert_by)
  then show ?case by (simp add: std_sort_def)
qed

lemma sort_locals_before_trans:
  "sort_locals_before p a b \<Longrightarrow> sort_locals_before p b c \<Longrightarrow> sort_locals_before p a c"
  by (auto simp: sort_locals_before_def)

lemma sort_locals_lt_before: "sort_locals_lt p a b \<Longrightarrow> sort_locals_before p a b"
  by (auto simp: sort_locals_lt_def sort_locals_before_def Let_def split: if_splits)

lemma not_sort_locals_lt_before: "\<not> sort_locals_lt p a b \<Longrightarrow> sort_locals_before p b a"
  by (auto simp: sort_locals_lt_def sort_locals_before_def Let_def split: if_splits)

text \<open>
  Claim C3, as the code has it. From an empty buffer, \<open>sort_locals\<close> keeps exactly the
  locals that are declared in the parser's local table, each as often as it was given, and
  orders them so that every ordinary (non-variable) local comes before every section or
  context variable, each of the two groups by ascending declaration index.
\<close>

theorem sort_locals_sorted:
  "mset (sort_locals locals p []) = mset (filter (is_local_decl p) locals) \<and>
   sorted_wrt (sort_locals_before p) (sort_locals locals p [])"
  unfolding sort_locals_def
  by (simp add: mset_std_sort
      sorted_wrt_std_sort [of "sort_locals_before p" "sort_locals_lt p",
        OF sort_locals_before_trans sort_locals_lt_before not_sort_locals_lt_before])

theorem sort_locals_sorted_witness:
  "sort_locals [small_local ''a'', small_local ''d'', small_local ''c'', small_local ''b'']
     small_parser [] = [small_local ''b'', small_local ''c'', small_local ''a''] \<and>
   sorted_wrt (sort_locals_before small_parser)
     [small_local ''b'', small_local ''c'', small_local ''a'']"
proof -
  have eq: "sort_locals [small_local ''a'', small_local ''d'', small_local ''c'', small_local ''b'']
     small_parser [] = [small_local ''b'', small_local ''c'', small_local ''a'']"
    by code_simp
  from sort_locals_sorted [of "[small_local ''a'', small_local ''d'', small_local ''c'', small_local ''b'']"
      small_parser] eq
  show ?thesis by simp
qed

text \<open>
  Claim C3 as stated fails: the comparator puts a non-variable before a variable, so the
  variable \<open>a\<close>, declared first, comes after the ordinary local \<open>b\<close>.
\<close>

theorem sort_locals_variables_last_counterexample:
  "sort_locals [small_local ''a'', small_local ''b''] small_parser [] =
     [small_local ''b'', small_local ''a''] \<and>
   is_local_variable small_parser (small_local ''a'') \<and>
   \<not> is_local_variable small_parser (small_local ''b'')"
  by code_simp

section \<open>Properties of the let-value macro\<close>

lemma snd_mk_let_values: "snd (mk_let_values es g) = g + of_nat (length es)"
proof (induction es arbitrary: g)
  case Nil
  show ?case by simp
next
  case (Cons e es)
  have "snd (mk_let_values (e # es) g) = snd (mk_let_values es (g + 1))"
    by (simp add: mk_let_value_def next_let_value_id_def split: prod.splits)
  also have "\<dots> = g + 1 + of_nat (length es)" by (rule Cons.IH)
  finally show ?case by (simp add: add.assoc)
qed

lemma word32_succ_of_nat_neq:
  fixes g :: "32 word"
  assumes "k < 2 ^ 32 - 1"
  shows "g \<noteq> g + 1 + of_nat k"
proof
  assume "g = g + 1 + of_nat k"
  then have "(of_nat (Suc k) :: 32 word) = 0" by (simp add: add.assoc)
  then have "(2::nat) ^ 32 dvd Suc k"
    using word_of_nat_eq_0_iff [where 'a = 32, of "Suc k"] by simp
  then have "2 ^ 32 \<le> Suc k" by (rule dvd_imp_le) simp
  with assms show False by simp
qed

text \<open>
  Claim C7, as the code has it. A let-value node is equal to itself (given that the
  kernel's equality relates its argument to itself). Two nodes built by two separate
  \<open>mk_let_value\<close> calls, around the same or different sub-terms, are not equal as long as
  fewer than \<open>2 ^ 32 - 1\<close> let-values were minted between the two calls: the id is an
  \<open>unsigned\<close> counter, which is distinct only until it wraps around.
\<close>

theorem let_value_nominal:
  assumes "args_eq [e] [e]" and "length es < 2 ^ 32 - 1"
  shows "let_value_node_eq args_eq (fst (mk_let_value e g)) (fst (mk_let_value e g)) \<and>
         \<not> let_value_node_eq args_eq (fst (mk_let_value e g))
             (fst (mk_let_value e' (snd (mk_let_values es (snd (mk_let_value e g))))))"
  using assms word32_succ_of_nat_neq [of "length es" g]
  by (simp add: mk_let_value_def next_let_value_id_def snd_mk_let_values)

theorem let_value_nominal_witness:
  "[Var 0] = [Var 0] \<and> length [Sort LZero, Var 1] < (2::nat) ^ 32 - 1 \<and>
   let_value_node_eq (=) (fst (mk_let_value (Var 0) 7)) (fst (mk_let_value (Var 0) 7)) \<and>
   \<not> let_value_node_eq (=) (fst (mk_let_value (Var 0) 7))
        (fst (mk_let_value (Var 0)
           (snd (mk_let_values [Sort LZero, Var 1] (snd (mk_let_value (Var 0) 7))))))"
  using let_value_nominal [of "(=)" "Var 0" "[Sort LZero, Var 1]" 7 "Var 0"]
  by simp

text \<open>
  Claim C7 as stated fails once the counter has wrapped around: the let-value built
  \<open>2 ^ 32\<close> constructions after another one carries the same id, and around the same
  sub-term the two nodes are equal.
\<close>

theorem let_value_wrap_counterexample:
  "let_value_node_eq (=) (fst (mk_let_value (Var 0) 0))
     (fst (mk_let_value (Var 0)
        (snd (mk_let_values (replicate 4294967295 (Var 0)) (snd (mk_let_value (Var 0) 0))))))"
  by (simp add: mk_let_value_def next_let_value_id_def snd_mk_let_values)

section \<open>Properties of the universe arithmetic\<close>

text \<open>
  Claim C8. With no domain level, \<open>mk_result_level\<close> is level one in an impredicative
  environment and level zero in a predicative one, whatever the kernel's \<open>normalize\<close> and
  \<open>is_not_zero\<close> do. With the single domain level zero the result is the same, given the
  kernel's contract at these levels: \<open>normalize\<close> leaves zero as it is and reduces
  \<open>max 0 1\<close> to one, and \<open>is_not_zero\<close> is false of zero.
\<close>

theorem mk_result_level_small:
  assumes "normalize_level mk_level_zero = mk_level_zero"
    and "\<not> is_not_zero mk_level_zero"
    and "normalize_level (mk_max mk_level_zero mk_level_one) = mk_level_one"
  shows "mk_result_level normalize_level is_not_zero env [] =
           (if impredicative env then mk_level_one else mk_level_zero) \<and>
         mk_result_level normalize_level is_not_zero env [mk_level_zero] =
           (if impredicative env then mk_level_one else mk_level_zero)"
  using assms by (simp add: mk_result_level_def)

theorem mk_result_level_small_witness:
  "normalize_max_zero_one mk_level_zero = mk_level_zero \<and>
   \<not> is_succ_level mk_level_zero \<and>
   normalize_max_zero_one (mk_max mk_level_zero mk_level_one) = mk_level_one \<and>
   mk_result_level normalize_max_zero_one is_succ_level \<lparr>impredicative = True\<rparr> [] = LSucc LZero \<and>
   mk_result_level normalize_max_zero_one is_succ_level \<lparr>impredicative = True\<rparr> [LZero] = LSucc LZero"
  using mk_result_level_small [of normalize_max_zero_one is_succ_level "\<lparr>impredicative = True\<rparr>"]
  by (simp add: mk_level_zero_def mk_level_one_def mk_max_def)

section \<open>Properties of the rewrite tactic engine\<close>

subsection \<open>No goals\<close>

text \<open>
  Claim C10. On a proof state without goals the tactic builds no \<open>rewrite_fn\<close> and
  processes no step: whatever the steps, the options and the kernel are, it raises the
  no-goal error when failure reporting is enabled for the proof state, and yields the
  empty sequence of successor states otherwise. The proof state is passed by value and is
  not changed.
\<close>

theorem mk_rewrite_tactic_no_goals:
  assumes "get_goals s = []"
  shows "mk_rewrite_tactic K elems opts s = (if report_failure s then Inl (NoGoal s) else Inr [])"
  using assms by (simp add: mk_rewrite_tactic_def throw_no_goal_if_enabled_def)

theorem mk_rewrite_tactic_no_goals_witness:
  "get_goals ((small_proof_state (Var 0))\<lparr>get_goals := []\<rparr>) = [] \<and>
   mk_rewrite_tactic small_kernel
     [Macro (RewriteElementDef (mk_once False (GoalOnly OccAll))) [small_rule]]
     (small_options 200) ((small_proof_state (Var 0))\<lparr>get_goals := []\<rparr>) =
   Inl (NoGoal ((small_proof_state (Var 0))\<lparr>get_goals := []\<rparr>))"
  using mk_rewrite_tactic_no_goals [of "(small_proof_state (Var 0))\<lparr>get_goals := []\<rparr>" small_kernel
      "[Macro (RewriteElementDef (mk_once False (GoalOnly OccAll))) [small_rule]]"
      "small_options 200"]
  by (simp add: small_proof_state_def)

subsection \<open>Repetition of an element step\<close>

lemma for_loop_successes_done:
  assumes "successes step k st = Some st'"
  shows "for_loop step k st = Inr (LoopDone, st')"
  using assms
proof (induction k arbitrary: st)
  case 0
  then show ?case by simp
next
  case (Suc k)
  from Suc.prems obtain st1 where s1: "step st = Inr (True, st1)"
    and s2: "successes step k st1 = Some st'"
    by (auto split: sum.splits if_splits)
  from Suc.IH [OF s2] s1 show ?case by simp
qed

lemma for_loop_successes:
  assumes "successes step m st = Some stm" and "step stm = Inr (False, st')" and "m < k"
  shows "for_loop step k st = Inr (LoopReturn, st')"
  using assms
proof (induction m arbitrary: st k)
  case 0
  then obtain k' where "k = Suc k'" by (cases k) auto
  with 0 show ?case by simp
next
  case (Suc m)
  then obtain k' where k: "k = Suc k'" by (cases k) auto
  from Suc.prems(1) obtain st1 where s1: "step st = Inr (True, st1)" and s2: "successes step m st1 = Some stm"
    by (auto split: sum.splits if_splits)
  from Suc.IH [OF s2 Suc.prems(2), of k'] Suc.prems(3) k have "for_loop step k' st1 = Inr (LoopReturn, st')"
    by simp
  with s1 k show ?case by simp
qed

lemma unat_min_word: "unat (min a b) = min (unat a) (unat b)"
  by (simp add: min_def word_le_nat_alt)

lemma process_step_element:
  "process_step K C (Macro (RewriteElementDef info) [rule]) st0 =
     (case ngen_mk_child K (m_ngen st0) of
        (child, ngen) \<Rightarrow>
          (case m_elab K (m_g st0) child rule of
             Inl ex \<Rightarrow> Inl ex
           | Inr (rule', cs) \<Rightarrow>
               process_rewrite_step K C (Macro (RewriteElementDef info) [rule'])
                 (Macro (RewriteElementDef info) [rule]) ((clear_trace st0)\<lparr>m_ngen := ngen\<rparr>)))"
  by (simp add: process_step_def get_rewrite_rule_def macro_arg_def macro_num_args_def
      has_rewrite_pattern_def clear_trace_def split: prod.splits sum.splits)

lemma process_step_element_pattern:
  "process_step K C (Macro (RewriteElementDef info) [rule, pat]) st0 =
     (case ngen_mk_child K (m_ngen st0) of
        (child, ngen) \<Rightarrow>
          (case m_elab K (m_g st0) child pat of
             Inl ex \<Rightarrow> Inl ex
           | Inr (pattern, cs) \<Rightarrow>
               process_rewrite_step K C (Macro (RewriteElementDef info) [rule, pattern])
                 (Macro (RewriteElementDef info) [rule, pat]) ((clear_trace st0)\<lparr>m_ngen := ngen\<rparr>)))"
  by (simp add: process_step_def get_rewrite_rule_def get_rewrite_pattern_def macro_arg_def
      macro_num_args_def has_rewrite_pattern_def clear_trace_def split: prod.splits sum.splits)

lemma process_rewrite_step_exactly_n_return:
  assumes "get_rewrite_info elem = Some info"
    and "m_multiplicity info = ExactlyN" and "m_num info = Some n"
    and "get_pattern K C elem st0 = Inr (pattern, st1)"
    and "successes (process_rewrite_single_step K C orig_elem pattern) m
           (init_trace C orig_elem pattern st1) = Some stm"
    and "process_rewrite_single_step K C orig_elem pattern stm = Inr (False, st')"
    and "m < unat n" and "m < unat (m_max_iter C)"
  shows "process_rewrite_step K C elem orig_elem st0 = Inr (False, st')"
proof -
  have "m < unat (min n (m_max_iter C))"
    using assms(7,8) by (simp add: unat_min_word)
  from for_loop_successes [OF assms(5,6) this] assms(1-4)
  show ?thesis by (simp add: process_rewrite_step_def)
qed

text \<open>
  Claim C1, as the code has it. Take an element step with policy AtMostN(n) or ExactlyN(n)
  and a run in which every application that the loop makes succeeds: the loop makes
  \<open>min n max_iter\<close> applications, and \<open>st'\<close> is the state they lead to. When \<open>n\<close> is below
  the iteration ceiling, these are \<open>n\<close> applications and the step succeeds, leaving the
  state \<open>st'\<close> reached by the \<open>n\<close>-th application. When \<open>n\<close> is at or above the ceiling,
  these are \<open>max_iter\<close> applications and the step raises the ceiling-exceeded error, for
  AtMostN just as for ExactlyN, since both branches end with the same \<open>check_max_iter\<close>.
\<close>

theorem at_most_n_all_succeed:
  assumes info: "get_rewrite_info elem = Some info" "m_num info = Some n"
    and mult: "m_multiplicity info = AtMostN \<or> m_multiplicity info = ExactlyN"
    and pat: "get_pattern K C elem st0 = Inr (pattern, st1)"
    and run: "successes (process_rewrite_single_step K C orig_elem pattern)
                (unat (min n (m_max_iter C))) (init_trace C orig_elem pattern st1) = Some st'"
  shows "(n < m_max_iter C \<longrightarrow>
            successes (process_rewrite_single_step K C orig_elem pattern) (unat n)
              (init_trace C orig_elem pattern st1) = Some st' \<and>
            process_rewrite_step K C elem orig_elem st0 = Inr (True, st')) \<and>
         (m_max_iter C \<le> n \<longrightarrow>
            successes (process_rewrite_single_step K C orig_elem pattern) (unat (m_max_iter C))
              (init_trace C orig_elem pattern st1) = Some st' \<and>
            process_rewrite_step K C elem orig_elem st0 = Inl (throw_max_iter_exceeded C))"
proof -
  have loop:
    "for_loop (process_rewrite_single_step K C orig_elem pattern) (unat (min n (m_max_iter C)))
       (init_trace C orig_elem pattern st1) = Inr (LoopDone, st')"
    using run by (rule for_loop_successes_done)
  have lt: "n < m_max_iter C \<Longrightarrow> \<not> m_max_iter C \<le> min n (m_max_iter C)"
    by auto
  have ge: "m_max_iter C \<le> n \<Longrightarrow> m_max_iter C \<le> min n (m_max_iter C)"
    by auto
  have min_lt: "n < m_max_iter C \<Longrightarrow> min n (m_max_iter C) = n"
    by auto
  have min_ge: "m_max_iter C \<le> n \<Longrightarrow> min n (m_max_iter C) = m_max_iter C"
    by auto
  from mult show ?thesis
  proof
    assume "m_multiplicity info = AtMostN"
    with info pat loop lt ge run min_lt min_ge show ?thesis
      by (auto simp: process_rewrite_step_def check_max_iter_def)
  next
    assume "m_multiplicity info = ExactlyN"
    with info pat loop lt ge run min_lt min_ge show ?thesis
      by (auto simp: process_rewrite_step_def check_max_iter_def)
  qed
qed

theorem at_most_n_all_succeed_witness:
  "process_rewrite_step small_kernel (small_env small_type2 (Var 0) 200)
        (Macro (RewriteElementDef (mk_at_most_n 2 False (GoalOnly OccAll))) [small_rule])
        (Macro (RewriteElementDef (mk_at_most_n 2 False (GoalOnly OccAll))) [small_rule])
        (small_rewrite_fn small_type2) =
     Inr (True, (small_rewrite_fn small_type2)
                  \<lparr>m_g := \<lparr>get_meta = Meta [''m''] small_type2, get_type = Var 0\<rparr>\<rparr>) \<and>
   process_rewrite_step small_kernel (small_env small_type2 (Var 0) 2)
        (Macro (RewriteElementDef (mk_at_most_n 2 False (GoalOnly OccAll))) [small_rule])
        (Macro (RewriteElementDef (mk_at_most_n 2 False (GoalOnly OccAll))) [small_rule])
        (small_rewrite_fn small_type2) =
     Inl (throw_max_iter_exceeded (small_env small_type2 (Var 0) 2))"
proof -
  let ?info = "mk_at_most_n 2 False (GoalOnly OccAll)"
  let ?E = "Macro (RewriteElementDef ?info) [small_rule]"
  let ?st0 = "small_rewrite_fn small_type2"
  let ?st' = "?st0\<lparr>m_g := \<lparr>get_meta = Meta [''m''] small_type2, get_type = Var 0\<rparr>\<rparr>"
  have info: "get_rewrite_info ?E = Some ?info" by simp
  have num: "m_num ?info = Some 2" by (simp add: mk_at_most_n_def)
  have mult: "m_multiplicity ?info = AtMostN \<or> m_multiplicity ?info = ExactlyN"
    by (simp add: mk_at_most_n_def)
  have pat: "get_pattern small_kernel C ?E ?st0 = Inr (?E, ?st0)" for C
    by (simp add: small_kernel_def)
  have two: "successes (process_rewrite_single_step small_kernel (small_env small_type2 (Var 0) k) ?E ?E)
               2 (init_trace (small_env small_type2 (Var 0) k) ?E ?E ?st0) = Some ?st'" for k
    by (simp add: process_rewrite_single_step_def mk_at_most_n_def small_kernel_def
        init_trace_def small_env_def small_rewrite_goal_def
        small_rewrite_fn_def small_goal_def small_type2_def numeral_2_eq_2)
  have run200: "successes (process_rewrite_single_step small_kernel (small_env small_type2 (Var 0) 200) ?E ?E)
               (unat (min (2 :: 32 word) (m_max_iter (small_env small_type2 (Var 0) 200))))
               (init_trace (small_env small_type2 (Var 0) 200) ?E ?E ?st0) = Some ?st'"
    using two [of 200] by (simp add: small_env_def)
  have run2: "successes (process_rewrite_single_step small_kernel (small_env small_type2 (Var 0) 2) ?E ?E)
               (unat (min (2 :: 32 word) (m_max_iter (small_env small_type2 (Var 0) 2))))
               (init_trace (small_env small_type2 (Var 0) 2) ?E ?E ?st0) = Some ?st'"
    using two [of 2] by (simp add: small_env_def)
  have a: "(2::32 word) < m_max_iter (small_env small_type2 (Var 0) 200)"
    by (simp add: small_env_def)
  have b: "m_max_iter (small_env small_type2 (Var 0) 2) \<le> (2::32 word)"
    by (simp add: small_env_def)
  from at_most_n_all_succeed [OF info num mult pat run200] a
    at_most_n_all_succeed [OF info num mult pat run2] b
  show ?thesis by blast
qed

text \<open>
  Claim C1 as stated fails for AtMostN at the ceiling: with \<open>rewriter.max_iter = 3\<close> and
  applications that always succeed, an AtMostN(3) step raises the ceiling-exceeded error.
\<close>

theorem at_most_n_ceiling_counterexample:
  "mk_rewrite_tactic always_kernel
     [Macro (RewriteElementDef (mk_at_most_n 3 False (GoalOnly OccAll))) [small_rule]]
     (small_options 3) (small_proof_state (Var 0)) =
   Inl (GenericException
     ''rewrite tactic failed, maximum number of iterations exceeded (current threshold: 3, increase the threshold by setting option 'rewrite.max_iter')''
     (Macro (RewriteElementDef (mk_at_most_n 3 False (GoalOnly OccAll))) [small_rule]))"
  by code_simp

text \<open>
  Claim C2, as the code has it. Let the first step be an element step with policy
  ExactlyN(n), with a rule only or with a rule and an explicit pattern, let the
  elaboration (of the rule, or of the pattern) and the pattern extraction return, and let
  \<open>m\<close> applications succeed and the next one fail, with \<open>m\<close> below \<open>n\<close> and below the
  iteration ceiling. Then the step fails and the run ends: with failure reporting enabled
  it raises the tactic exception "rewrite step failed" for that step, and the proof state
  in the exception is the current one, built from the working members as the \<open>m\<close>
  successful applications and the failed attempt left them (current goal in front of the
  other goals of \<open>m_ps\<close>, current substitution and name generator), together with the
  trace when tracing is on and initialised; with failure reporting disabled the result is
  the empty sequence.
\<close>

theorem exactly_n_too_few:
  assumes elem: "elem = Macro (RewriteElementDef info) args"
    and args: "args = [rule] \<and> to_elab = rule \<and> new_args = [e'] \<or>
               args = [rule, pat] \<and> to_elab = pat \<and> new_args = [rule, e']"
    and env: "C' = C\<lparr>m_expr_loc := elem\<rparr>"
    and mult: "m_multiplicity info = ExactlyN" and num: "m_num info = Some n"
    and child: "ngen_mk_child K (m_ngen st0) = (child, ngen)"
    and elab: "m_elab K (m_g st0) child to_elab = Inr (e', cs)"
    and pat: "get_pattern K C' (Macro (RewriteElementDef info) new_args)
                ((clear_trace st0)\<lparr>m_ngen := ngen\<rparr>) = Inr (pattern, st1)"
    and succ: "successes (process_rewrite_single_step K C' elem pattern) m
                 (init_trace C' elem pattern st1) = Some stm"
    and fail: "process_rewrite_single_step K C' elem pattern stm = Inr (False, st')"
    and m: "m < unat n" "m < unat (m_max_iter C)"
  shows "rewrite_fn_call K C (elem # elems) st0 =
           (if report_failure (m_ps C) then
              Inl (TacticException ''rewrite step failed'' (Some elem) (curr_proof_state C st')
                     (if m_use_trace C \<and> m_trace_initialized st' then Some (m_trace st') else None))
            else Inr [])"
proof -
  have m': "m < unat (m_max_iter C')" using m(2) env by simp
  have "process_rewrite_step K C' (Macro (RewriteElementDef info) new_args) elem
          ((clear_trace st0)\<lparr>m_ngen := ngen\<rparr>) = Inr (False, st')"
    by (rule process_rewrite_step_exactly_n_return [OF _ mult num pat succ fail m(1) m']) simp
  with child elab args have "process_step K C' elem st0 = Inr (False, st')"
    by (auto simp: elem process_step_element process_step_element_pattern)
  then show ?thesis
    by (simp add: env [symmetric])
qed

theorem exactly_n_too_few_witness:
  "rewrite_fn_call small_kernel (small_env small_type2 (Var 0) 200)
     [Macro (RewriteElementDef (mk_exactly_n 3 False (GoalOnly OccAll))) [small_rule]]
     (small_rewrite_fn small_type2) =
   Inl (TacticException ''rewrite step failed''
          (Some (Macro (RewriteElementDef (mk_exactly_n 3 False (GoalOnly OccAll))) [small_rule]))
          (curr_proof_state (small_env small_type2 (Var 0) 200)
             ((small_rewrite_fn small_type2)
                \<lparr>m_ngen := 1, m_g := \<lparr>get_meta = Meta [''m''] small_type2, get_type = Var 0\<rparr>\<rparr>))
          None)"
proof -
  let ?info = "mk_exactly_n 3 False (GoalOnly OccAll)"
  let ?E = "Macro (RewriteElementDef ?info) [small_rule]"
  let ?C = "small_env small_type2 (Var 0) 200"
  let ?C' = "?C\<lparr>m_expr_loc := ?E\<rparr>"
  let ?st0 = "small_rewrite_fn small_type2"
  let ?st1 = "(clear_trace ?st0)\<lparr>m_ngen := 1\<rparr>"
  let ?stm = "?st0\<lparr>m_ngen := 1, m_g := \<lparr>get_meta = Meta [''m''] small_type2, get_type = Var 0\<rparr>\<rparr>"
  have mult: "m_multiplicity ?info = ExactlyN" and num: "m_num ?info = Some 3"
    by (simp_all add: mk_exactly_n_def)
  have child: "ngen_mk_child small_kernel (m_ngen ?st0) = (0, 1)"
    by (simp add: small_kernel_def small_rewrite_fn_def)
  have elab: "m_elab small_kernel (m_g ?st0) 0 small_rule = Inr (small_rule, [])"
    by (simp add: small_kernel_def)
  have pat: "get_pattern small_kernel ?C' ?E ?st1 = Inr (?E, ?st1)"
    by (simp add: small_kernel_def)
  have succ: "successes (process_rewrite_single_step small_kernel ?C' ?E ?E) 2
                (init_trace ?C' ?E ?E ?st1) = Some ?stm"
    by (simp add: process_rewrite_single_step_def mk_exactly_n_def small_kernel_def
        init_trace_def small_env_def small_rewrite_goal_def
        small_rewrite_fn_def small_goal_def small_type2_def clear_trace_def numeral_2_eq_2)
  have fail: "process_rewrite_single_step small_kernel ?C' ?E ?E ?stm = Inr (False, ?stm)"
    by (simp add: process_rewrite_single_step_def mk_exactly_n_def small_kernel_def
        small_rewrite_goal_def)
  have m: "2 < unat (3 :: 32 word)" "2 < unat (m_max_iter ?C)"
    by (simp_all add: small_env_def)
  have args: "[small_rule] = [small_rule] \<and> small_rule = small_rule \<and> [small_rule] = [small_rule] \<or>
              [small_rule] = [small_rule, Var 0] \<and> small_rule = Var 0 \<and>
              [small_rule] = [small_rule, small_rule]"
    by simp
  from exactly_n_too_few [OF refl args refl mult num child elab pat succ fail m, of "[]"]
  show ?thesis
    by (simp add: small_env_def small_proof_state_def)
qed

text \<open>
  Claim C2 as stated fails: the proof state in the exception is not the state before the
  step. With a goal type that admits two applications and an ExactlyN(3) step, the
  exception carries the goal as rewritten twice and the advanced name generator.
\<close>

theorem exactly_n_too_few_counterexample:
  "mk_rewrite_tactic small_kernel
     [Macro (RewriteElementDef (mk_exactly_n 3 False (GoalOnly OccAll))) [small_rule]]
     (small_options 200) (small_proof_state small_type2) =
   Inl (TacticException ''rewrite step failed''
          (Some (Macro (RewriteElementDef (mk_exactly_n 3 False (GoalOnly OccAll))) [small_rule]))
          \<lparr>get_goals = [\<lparr>get_meta = Meta [''m''] small_type2, get_type = Var 0\<rparr>],
           get_subst = [], get_ngen = 4, report_failure = True\<rparr>
          None) \<and>
   \<lparr>get_goals = [\<lparr>get_meta = Meta [''m''] small_type2, get_type = Var 0\<rparr>],
    get_subst = [], get_ngen = 4, report_failure = True\<rparr> \<noteq> small_proof_state small_type2"
  by code_simp

subsection \<open>Unfold and reduce steps\<close>

lemma reduce_result:
  assumes "ngen_mk_child K (m_ngen st) = (child, ngen)"
    and "normalize_tc K child (is_opaque names) e = Inr (r, cs, asked)"
  shows "reduce K e names st =
           Inr (if cs = [] \<and> (names = [] \<or> (\<exists>d\<in>set asked. d \<in> set names)) then Some r else None,
                st\<lparr>m_ngen := ngen\<rparr>)"
  using assms
  by (auto simp: reduce_def unfolded_after_def is_opaque_def list_ex_iff Let_def)

lemma process_reduce_goal_succeeded:
  assumes "ngen_mk_child K (m_ngen st) = (child, ngen)"
    and "normalize_tc K child (is_opaque names) (get_type (m_g st)) = Inr (r, cs, asked)"
  shows "step_succeeded (process_reduce_goal K names st) =
           (cs = [] \<and> (names = [] \<or> (\<exists>d\<in>set asked. d \<in> set names)))"
  by (simp add: process_reduce_goal_def reduce_result [OF assms] step_succeeded_def)

lemma process_reduce_hypothesis_succeeded:
  assumes "ngen_mk_child K (m_ngen st) = (child, ngen)"
    and "mlocal_type hyp = Some t"
    and "normalize_tc K child (is_opaque names) t = Inr (r, cs, asked)"
  shows "step_succeeded (process_reduce_hypothesis K hyp names st) =
           (cs = [] \<and> (names = [] \<or> (\<exists>d\<in>set asked. d \<in> set names)))"
  by (simp add: process_reduce_hypothesis_def assms(2) reduce_result [OF assms(1,3)]
      step_succeeded_def)

text \<open>
  Claim C6, as the code has it. Take one target, the goal or a hypothesis, and let the
  normalisation of its type return. An unfold step succeeds on the target exactly when
  the normalisation left no constraints and either the step's name list is empty or the
  converter was asked about one of the named constants, which it then treats as not
  opaque and marks as unfolded. So for a non-empty name list success needs both an
  unfolded named constant and no constraints, while an unfold step with an empty name
  list behaves like a reduce step. A reduce step without an extra term succeeds exactly
  when the normalisation left no constraints, whether or not anything was unfolded.
\<close>

theorem unfold_reduce_success:
  assumes child: "ngen_mk_child K (m_ngen st) = (child, ngen)"
    and goal_unfold: "normalize_tc K child (is_opaque names) (get_type (m_g st)) = Inr (r, cs, asked)"
    and goal_reduce: "normalize_tc K child (is_opaque []) (get_type (m_g st)) = Inr (r0, cs0, asked0)"
    and hyp: "mlocal_type hyp = Some t"
    and hyp_unfold: "normalize_tc K child (is_opaque names) t = Inr (r1, cs1, asked1)"
    and hyp_reduce: "normalize_tc K child (is_opaque []) t = Inr (r2, cs2, asked2)"
  shows "step_succeeded (process_unfold_step K
            (Macro (RewriteUnfoldDef \<lparr>m_names = names, m_location_unfold = GoalOnly occ\<rparr>) []) st) =
           (cs = [] \<and> (names = [] \<or> (\<exists>d\<in>set asked. d \<in> set names))) \<and>
         step_succeeded (process_reduce_hypothesis K hyp names st) =
           (cs1 = [] \<and> (names = [] \<or> (\<exists>d\<in>set asked1. d \<in> set names))) \<and>
         step_succeeded (process_reduce_step_elem K C
            (Macro (RewriteReduceDef \<lparr>m_location_reduce = GoalOnly occ\<rparr>) []) st) = (cs0 = []) \<and>
         step_succeeded (process_reduce_hypothesis K hyp [] st) = (cs2 = [])"
  using process_reduce_goal_succeeded [OF child goal_unfold]
    process_reduce_goal_succeeded [OF child goal_reduce]
    process_reduce_hypothesis_succeeded [OF child hyp hyp_unfold]
    process_reduce_hypothesis_succeeded [OF child hyp hyp_reduce]
  by (simp add: process_unfold_step_def process_reduce_step_elem_def process_reduce_step_def
      macro_num_args_def)

theorem unfold_reduce_success_witness:
  "step_succeeded (process_unfold_step small_kernel
      (Macro (RewriteUnfoldDef \<lparr>m_names = [[''f'']], m_location_unfold = GoalOnly OccAll\<rparr>) [])
      (small_rewrite_fn small_type2)) \<and>
   \<not> step_succeeded (process_reduce_hypothesis small_kernel
      (Local [''x''] [''x''] small_rule BinderDefault) [[''f'']] (small_rewrite_fn small_type2)) \<and>
   step_succeeded (process_reduce_step_elem small_kernel (small_env small_type2 (Var 0) 200)
      (Macro (RewriteReduceDef \<lparr>m_location_reduce = GoalOnly OccAll\<rparr>) [])
      (small_rewrite_fn small_type2)) \<and>
   step_succeeded (process_reduce_hypothesis small_kernel
      (Local [''x''] [''x''] small_rule BinderDefault) [] (small_rewrite_fn small_type2))"
proof -
  let ?st = "small_rewrite_fn small_type2"
  let ?hyp = "Local [''x''] [''x''] small_rule BinderDefault"
  have child: "ngen_mk_child small_kernel (m_ngen ?st) = (0, 1)"
    by (simp add: small_kernel_def small_rewrite_fn_def)
  have goal_unfold: "normalize_tc small_kernel 0 (is_opaque [[''f'']]) (get_type (m_g ?st)) =
      Inr (App (Sort LZero) (App (Sort LZero) (Var 0)), [], [[''f''], [''f'']])"
    by (simp add: small_kernel_def small_rewrite_fn_def small_goal_def small_type2_def is_opaque_def)
  have goal_reduce: "normalize_tc small_kernel 0 (is_opaque []) (get_type (m_g ?st)) =
      Inr (small_type2, [], [[''f''], [''f'']])"
    by (simp add: small_kernel_def small_rewrite_fn_def small_goal_def small_type2_def is_opaque_def)
  have hyp: "mlocal_type ?hyp = Some small_rule" by simp
  have hyp_unfold: "normalize_tc small_kernel 0 (is_opaque [[''f'']]) small_rule =
      Inr (small_rule, [], [[''h'']])"
    by (simp add: small_kernel_def small_rule_def is_opaque_def)
  have hyp_reduce: "normalize_tc small_kernel 0 (is_opaque []) small_rule =
      Inr (small_rule, [], [[''h'']])"
    by (simp add: small_kernel_def small_rule_def is_opaque_def)
  from unfold_reduce_success [OF child goal_unfold goal_reduce hyp hyp_unfold hyp_reduce,
      of OccAll "small_env small_type2 (Var 0) 200"]
  show ?thesis by simp
qed

text \<open>
  Claim C6 as stated fails for an unfold step with an empty name list: it succeeds
  although no named constant was unfolded, the normal form being the type itself.
\<close>

theorem unfold_no_names_counterexample:
  "step_succeeded (process_unfold_step small_kernel
      (Macro (RewriteUnfoldDef \<lparr>m_names = [], m_location_unfold = GoalOnly OccAll\<rparr>) [])
      (small_rewrite_fn small_rule)) \<and>
   normalize_tc small_kernel 0 (is_opaque []) small_rule = Inr (small_rule, [], [[''h'']])"
  by code_simp

subsection \<open>The ceiling-exceeded message\<close>

text \<open>
  Claim C4 at a concrete run: with \<open>rewriter.max_iter = 5\<close> and a ZeroOrMore step whose
  applications always succeed, the tactic raises the error whose message reads "maximum
  number of iterations exceeded" and states the threshold 5. The option is registered as
  \<open>rewriter.max_iter\<close>, but the message tells the user to set \<open>rewrite.max_iter\<close>: the
  registered name does not occur in it.
\<close>

theorem max_iter_message_option_name:
  "mk_rewrite_tactic always_kernel
     [Macro (RewriteElementDef (mk_zero_or_more False (GoalOnly OccAll))) [small_rule]]
     (small_options 5) (small_proof_state (Var 0)) =
   Inl (GenericException
     ''rewrite tactic failed, maximum number of iterations exceeded (current threshold: 5, increase the threshold by setting option 'rewrite.max_iter')''
     (Macro (RewriteElementDef (mk_zero_or_more False (GoalOnly OccAll))) [small_rule])) \<and>
   map (\<lambda>r. name_to_string (fst r)) registered_options =
     [''rewriter.max_iter'', ''rewriter.syntactic'', ''rewriter.trace''] \<and>
   \<not> occurs_in (name_to_string g_rewriter_max_iterations) (max_iter_exceeded_message 5) \<and>
   occurs_in ''rewrite.max_iter'' (max_iter_exceeded_message 5)"
  by code_simp

end
